theory Spec2Isabelle
  imports Complex_Main "HOL-Library.AList"
begin

section \<open>JavaScript values\<close>

text \<open>
  The handlers read upstream payloads through \<open>any\<close>: what they do depends on the run-time
  shape of a value, not on the declared TypeScript type. A payload is therefore a JavaScript
  value. A number is given by its value, a rational: the numbers of a program are the
  rationals that a double holds; \<open>NaN\<close> and the infinities are not among the values. A
  string is the list of its characters, which are the ones with a code below 256. An object
  is the list of its own properties, in the order of their enumeration and with distinct
  names; \<open>JFun n\<close> is the built-in method \<open>n\<close> of an array, which is what \<open>a.values\<close> and
  \<open>a.map\<close> read on an array \<open>a\<close>.
\<close>

datatype jsval =
    JUndefined
  | JNull
  | JBool bool
  | JNum rat
  | JStr string
  | JArr "jsval list"
  | JObj "(string \<times> jsval) list"
  | JFun string

text \<open>A thrown value: every exception of these programs is an \<open>Error\<close> instance, with its
  \<open>name\<close> (\<open>Error\<close>, \<open>TypeError\<close>, \<open>RangeError\<close>) and its \<open>message\<close>.\<close>

datatype jsexn = Exn (exn_name: string) (exn_message: string)

type_synonym 'a js = "jsexn + 'a"

definition ebind :: "'a js \<Rightarrow> ('a \<Rightarrow> 'b js) \<Rightarrow> 'b js" where
  "ebind m f = (case m of Inl e \<Rightarrow> Inl e | Inr x \<Rightarrow> f x)"

fun emap :: "('a \<Rightarrow> 'b js) \<Rightarrow> 'a list \<Rightarrow> 'b list js" where
  "emap f [] = Inr []"
| "emap f (x # xs) = ebind (f x) (\<lambda>y. ebind (emap f xs) (\<lambda>ys. Inr (y # ys)))"

subsection \<open>Conversions\<close>

definition nullish :: "jsval \<Rightarrow> bool" where
  "nullish v = (v = JUndefined \<or> v = JNull)"

definition truthy :: "jsval \<Rightarrow> bool" where
  "truthy v = (case v of
      JUndefined \<Rightarrow> False
    | JNull \<Rightarrow> False
    | JBool b \<Rightarrow> b
    | JNum n \<Rightarrow> n \<noteq> 0
    | JStr s \<Rightarrow> s \<noteq> []
    | _ \<Rightarrow> True)"

definition is_string :: "jsval \<Rightarrow> bool" where
  "is_string v = (case v of JStr s \<Rightarrow> True | _ \<Rightarrow> False)"

definition digit_char :: "nat \<Rightarrow> char" where
  "digit_char d = ''0123456789'' ! d"

fun dec_nat :: "nat \<Rightarrow> string" where
  "dec_nat n = (if n < 10 then [digit_char n] else dec_nat (n div 10) @ [digit_char (n mod 10)])"

declare dec_nat.simps [simp del]

text \<open>An integer in decimal digits, for the fields of a date.\<close>

definition dec_int :: "int \<Rightarrow> string" where
  "dec_int i = (if i < 0 then CHR ''-'' # dec_nat (nat (- i)) else dec_nat (nat i))"

subsection \<open>\<open>Number::toString\<close>\<close>

text \<open>The decimal digits of a natural number and the length of its binary form, on
  integers.\<close>

function digits_of :: "int \<Rightarrow> string" where
  "digits_of n =
     (if n < 10 then [digit_char (nat n)]
      else digits_of (n div 10) @ [digit_char (nat (n mod 10))])"
  by pat_completeness auto
termination
  by (relation "measure nat") auto

declare digits_of.simps [simp del]

function bit_length :: "int \<Rightarrow> int" where
  "bit_length n = (if n \<le> 0 then 0 else 1 + bit_length (n div 2))"
  by pat_completeness auto
termination
  by (relation "measure nat") auto

declare bit_length.simps [simp del]

definition pow10 :: "int \<Rightarrow> rat" where
  "pow10 t = (if 0 \<le> t then 10 ^ nat t else 1 / 10 ^ nat (- t))"

definition pow2 :: "int \<Rightarrow> rat" where
  "pow2 t = (if 0 \<le> t then 2 ^ nat t else 1 / 2 ^ nat (- t))"

text \<open>For a positive \<open>x\<close>: the \<open>e\<close> with \<open>2^e \<le> x < 2^(e+1)\<close>, and the \<open>n\<close> with
  \<open>10^(n-1) \<le> x < 10^n\<close>. The lengths of numerator and denominator give each up to one.\<close>

definition log2_floor :: "rat \<Rightarrow> int" where
  "log2_floor x =
     (let (p, q) = quotient_of x;
          e = bit_length p - bit_length q
      in if pow2 e \<le> x then e else e - 1)"

definition decimal_exponent :: "rat \<Rightarrow> int" where
  "decimal_exponent x =
     (let (p, q) = quotient_of x;
          e = int (length (digits_of p)) - int (length (digits_of q))
      in if pow10 e \<le> x then e + 1 else e)"

definition round_half_even :: "rat \<Rightarrow> int" where
  "round_half_even r =
     (let f = \<lfloor>r\<rfloor>; d = r - of_int f
      in if d < 1 / 2 then f else if 1 / 2 < d then f + 1 else if f mod 2 = 0 then f else f + 1)"

text \<open>The double nearest to a positive rational, ties to the even significand: 53 bits,
  the least exponent of a unit being \<open>-1074\<close>; \<open>None\<close> when that is beyond the largest
  double, where the rounding gives infinity.\<close>

definition to_double :: "rat \<Rightarrow> rat option" where
  "to_double x =
     (let q = max (log2_floor x - 52) (- 1074);
          y = of_int (round_half_even (x / pow2 q)) * pow2 q
      in if log2_floor y < 1024 then Some y else None)"

text \<open>The decimals of \<open>k\<close> digits next to \<open>x\<close>, below and above. \<open>candidate x k\<close> is the
  one that rounds to \<open>x\<close>, the closer one if both do, the one with the even last digit if
  they are as close.\<close>

definition candidate :: "rat \<Rightarrow> int \<Rightarrow> rat option" where
  "candidate x k =
     (let u = pow10 (decimal_exponent x - k);
          s = \<lfloor>x / u\<rfloor>;
          lo = of_int s * u;
          hi = lo + u
      in if to_double lo = Some x then
           (if to_double hi = Some x \<and> (hi - x < x - lo \<or> hi - x = x - lo \<and> s mod 2 = 1)
            then Some hi else Some lo)
         else if to_double hi = Some x then Some hi
         else None)"

fun shortest :: "rat \<Rightarrow> int list \<Rightarrow> (int \<times> rat) option" where
  "shortest x [] = None"
| "shortest x (k # ks) =
     (case candidate x k of Some v \<Rightarrow> Some (k, v) | None \<Rightarrow> shortest x ks)"

text \<open>The text for the digits \<open>ds\<close> of a decimal whose value is below \<open>10^n\<close> and not below
  \<open>10^(n-1)\<close>: an integer of at most 21 digits in full, a fraction down to \<open>10^(-7)\<close> with
  its point, anything else with an exponent.\<close>

definition format_digits :: "string \<Rightarrow> int \<Rightarrow> string" where
  "format_digits ds n =
     (let k = int (length ds)
      in if k \<le> n \<and> n \<le> 21 then ds @ replicate (nat (n - k)) CHR ''0''
         else if 0 < n \<and> n \<le> 21 then take (nat n) ds @ ''.'' @ drop (nat n) ds
         else if - 6 < n \<and> n \<le> 0 then ''0.'' @ replicate (nat (- n)) CHR ''0'' @ ds
         else (if k = 1 then ds else take 1 ds @ ''.'' @ drop 1 ds)
              @ ''e'' @ (if 0 < n - 1 then ''+'' else ''-'') @ digits_of \<bar>n - 1\<bar>)"

text \<open>The text of a positive double, as a template literal, \<open>String\<close> and
  \<open>JSON.stringify\<close> write it: the fewest digits that still round to the number, of which
  17 are always enough.\<close>

definition positive_toString :: "rat \<Rightarrow> string" where
  "positive_toString x =
     (case shortest x [1, 2, 3, 4, 5, 6, 7, 8, 9, 10, 11, 12, 13, 14, 15, 16, 17] of
        Some (k, v) \<Rightarrow>
          (let n = decimal_exponent v
           in format_digits (digits_of \<lfloor>v / pow10 (n - k)\<rfloor>) n)
      | None \<Rightarrow>
          (let n = decimal_exponent x
           in format_digits (digits_of \<lfloor>x / pow10 (n - 17)\<rfloor>) n))"

text \<open>A rational that no double holds is taken for the number that a literal of this value
  denotes: the double next to it, or an infinity.\<close>

definition is_finite :: "rat \<Rightarrow> bool" where
  "is_finite x = (to_double \<bar>x\<bar> \<noteq> None)"

definition Number_toString :: "rat \<Rightarrow> string" where
  "Number_toString x =
     (case to_double \<bar>x\<bar> of
        None \<Rightarrow> (if x < 0 then ''-Infinity'' else ''Infinity'')
      | Some y \<Rightarrow>
          if y = 0 then ''0''
          else if x < 0 then ''-'' @ positive_toString y
          else positive_toString y)"

subsection \<open>\<open>ToString\<close>\<close>

fun join_with :: "string \<Rightarrow> string list \<Rightarrow> string" where
  "join_with sep [] = []"
| "join_with sep [s] = s"
| "join_with sep (s # t # ss) = s @ sep @ join_with sep (t # ss)"

text \<open>\<open>ToString\<close>, as a template literal and \<open>new Error(m)\<close> apply it. An array joins its
  elements with commas, a nullish element giving the empty string.\<close>

fun js_to_string :: "jsval \<Rightarrow> string" where
  "js_to_string JUndefined = ''undefined''"
| "js_to_string JNull = ''null''"
| "js_to_string (JBool b) = (if b then ''true'' else ''false'')"
| "js_to_string (JNum n) = Number_toString n"
| "js_to_string (JStr s) = s"
| "js_to_string (JArr xs) =
     join_with '','' (map (\<lambda>x. if nullish x then [] else js_to_string x) xs)"
| "js_to_string (JObj kvs) = ''[object Object]''"
| "js_to_string (JFun n) = ''function '' @ n @ ''() { [native code] }''"

subsection \<open>Property access\<close>

text \<open>\<open>js_prop v k\<close> is the property \<open>k\<close> of a value that is not nullish: an own property of an
  object, the length of an array or string, the built-in methods \<open>values\<close> and \<open>map\<close> of an
  array, the declared arity of such a method. No other name that these programs read is
  defined on a prototype.\<close>

definition js_prop :: "jsval \<Rightarrow> string \<Rightarrow> jsval" where
  "js_prop v k = (case v of
      JObj kvs \<Rightarrow> (case map_of kvs k of Some x \<Rightarrow> x | None \<Rightarrow> JUndefined)
    | JArr xs \<Rightarrow>
        (if k = ''length'' then JNum (of_nat (length xs))
         else if k = ''values'' \<or> k = ''map'' then JFun k
         else JUndefined)
    | JStr s \<Rightarrow> (if k = ''length'' then JNum (of_nat (length s)) else JUndefined)
    | JFun n \<Rightarrow>
        (if k = ''length'' then JNum (if n = ''map'' then 1 else 0) else JUndefined)
    | _ \<Rightarrow> JUndefined)"

text \<open>\<open>v.k\<close>: a \<open>TypeError\<close> on \<open>undefined\<close> and \<open>null\<close>.\<close>

definition js_get :: "jsval \<Rightarrow> string \<Rightarrow> jsval js" where
  "js_get v k =
     (if nullish v
      then Inl (Exn ''TypeError''
             (''Cannot read properties of '' @ js_to_string v @ '' (reading '' @ [CHR 0x27] @ k @ [CHR 0x27] @ '')''))
      else Inr (js_prop v k))"

text \<open>\<open>v?.k\<close>: \<open>undefined\<close> on \<open>undefined\<close> and \<open>null\<close>. In a chain \<open>a?.b?.c\<close> a nullish
  link makes every later link \<open>undefined\<close>, which is what composing \<open>opt_get\<close> gives.\<close>

definition opt_get :: "jsval \<Rightarrow> string \<Rightarrow> jsval" where
  "opt_get v k = (if nullish v then JUndefined else js_prop v k)"

text \<open>\<open>v[0]\<close>.\<close>

definition js_first :: "jsval \<Rightarrow> jsval js" where
  "js_first v =
     (if nullish v
      then Inl (Exn ''TypeError''
             (''Cannot read properties of '' @ js_to_string v @ '' (reading '' @ [CHR 0x27] @ ''0'' @ [CHR 0x27] @ '')''))
      else Inr (case v of
          JArr xs \<Rightarrow> (case xs of [] \<Rightarrow> JUndefined | x # _ \<Rightarrow> x)
        | JStr s \<Rightarrow> (case s of [] \<Rightarrow> JUndefined | c # _ \<Rightarrow> JStr [c])
        | JObj kvs \<Rightarrow> (case map_of kvs ''0'' of Some x \<Rightarrow> x | None \<Rightarrow> JUndefined)
        | _ \<Rightarrow> JUndefined))"

text \<open>\<open>...v\<close> in an argument list, \<open>what\<close> being the text of the expression \<open>v\<close>: the
  elements of an array, the characters of a string, a \<open>TypeError\<close> on anything else, with
  the message of V8, which names the expression and the value when the value is nullish.\<close>

definition spread :: "string \<Rightarrow> jsval \<Rightarrow> jsval list js" where
  "spread what v = (case v of
      JArr xs \<Rightarrow> Inr xs
    | JStr s \<Rightarrow> Inr (map (\<lambda>c. JStr [c]) s)
    | _ \<Rightarrow> Inl (Exn ''TypeError''
            (if nullish v
             then what @ '' is not iterable (cannot read property '' @ js_to_string v @ '')''
             else ''Spread syntax requires ...iterable[Symbol.iterator] to be a function'')))"

text \<open>\<open>v?.map(f)\<close>, \<open>what\<close> being the text of the expression \<open>v?.map\<close>: \<open>undefined\<close> on a
  nullish \<open>v\<close>, the mapped array on an array (the first exception of \<open>f\<close> ends it), and a
  \<open>TypeError\<close> on any other value, whose \<open>map\<close> is not a function, with the message of V8.\<close>

definition opt_map :: "string \<Rightarrow> jsval \<Rightarrow> (jsval \<Rightarrow> jsval js) \<Rightarrow> jsval js" where
  "opt_map what v f =
     (if nullish v then Inr JUndefined
      else (case v of
          JArr xs \<Rightarrow> ebind (emap f xs) (\<lambda>ys. Inr (JArr ys))
        | _ \<Rightarrow> Inl (Exn ''TypeError'' (what @ '' is not a function''))))"

subsection \<open>\<open>JSON.stringify(v, null, 2)\<close>\<close>

definition hex_digit :: "nat \<Rightarrow> char" where
  "hex_digit d = ''0123456789abcdef'' ! d"

definition json_escape :: "char \<Rightarrow> string" where
  "json_escape c =
     (if c = CHR 0x22 then [CHR 0x5C, CHR 0x22]
      else if c = CHR 0x5C then [CHR 0x5C, CHR 0x5C]
      else if c = CHR 0x08 then [CHR 0x5C, CHR ''b'']
      else if c = CHR 0x0C then [CHR 0x5C, CHR ''f'']
      else if c = CHR 0x0A then [CHR 0x5C, CHR ''n'']
      else if c = CHR 0x0D then [CHR 0x5C, CHR ''r'']
      else if c = CHR 0x09 then [CHR 0x5C, CHR ''t'']
      else if (of_char c :: nat) < 32
        then [CHR 0x5C, CHR ''u'', CHR ''0'', CHR ''0'',
              hex_digit ((of_char c :: nat) div 16), hex_digit ((of_char c :: nat) mod 16)]
      else [c])"

definition json_quote :: "string \<Rightarrow> string" where
  "json_quote s = [CHR 0x22] @ concat (map json_escape s) @ [CHR 0x22]"

text \<open>The serialisation at indentation \<open>ind\<close>, each level two spaces deeper. \<open>undefined\<close> and
  functions have none (\<open>None\<close>: \<open>JSON.stringify\<close> returns \<open>undefined\<close>); inside an array they
  are written \<open>null\<close>, inside an object the property is left out.\<close>

fun stringify :: "string \<Rightarrow> jsval \<Rightarrow> string option" where
  "stringify ind JUndefined = None"
| "stringify ind (JFun n) = None"
| "stringify ind JNull = Some ''null''"
| "stringify ind (JBool b) = Some (if b then ''true'' else ''false'')"
| "stringify ind (JNum n) = Some (if is_finite n then Number_toString n else ''null'')"
| "stringify ind (JStr s) = Some (json_quote s)"
| "stringify ind (JArr xs) =
     Some (if xs = [] then ''[]''
           else ''['' @ [CHR 0x0A] @ ind @ ''  ''
                @ join_with ('','' @ [CHR 0x0A] @ ind @ ''  '')
                    (map (\<lambda>x. case stringify (ind @ ''  '') x of None \<Rightarrow> ''null'' | Some s \<Rightarrow> s) xs)
                @ [CHR 0x0A] @ ind @ '']'')"
| "stringify ind (JObj kvs) =
     (let parts = concat (map (\<lambda>(k, v). case stringify (ind @ ''  '') v of
                                  None \<Rightarrow> []
                                | Some s \<Rightarrow> [json_quote k @ '': '' @ s]) kvs)
      in Some (if parts = [] then ''{}''
               else ''{'' @ [CHR 0x0A] @ ind @ ''  ''
                    @ join_with ('','' @ [CHR 0x0A] @ ind @ ''  '') parts
                    @ [CHR 0x0A] @ ind @ ''}''))"

definition JSON_stringify :: "jsval \<Rightarrow> jsval" where
  "JSON_stringify v = (case stringify [] v of None \<Rightarrow> JUndefined | Some s \<Rightarrow> JStr s)"

subsection \<open>\<open>new Date(v).toISOString()\<close>\<close>

text \<open>A date is its time value in milliseconds since the epoch, \<open>None\<close> for an invalid date.
  What \<open>Date.parse\<close> makes of a string is left to the engine for most strings, so it is a
  parameter. A number in the range of time values gives its integer part.\<close>

definition time_clip :: "rat \<Rightarrow> int option" where
  "time_clip t =
     (if \<bar>t\<bar> \<le> 8640000000000000 then Some (if 0 \<le> t then \<lfloor>t\<rfloor> else \<lceil>t\<rceil>) else None)"

definition new_Date :: "(string \<Rightarrow> int option) \<Rightarrow> jsval \<Rightarrow> int option" where
  "new_Date date_parse v = (case v of
      JUndefined \<Rightarrow> None
    | JNull \<Rightarrow> Some 0
    | JBool b \<Rightarrow> Some (if b then 1 else 0)
    | JNum n \<Rightarrow> time_clip n
    | _ \<Rightarrow> (case date_parse (js_to_string v) of None \<Rightarrow> None | Some t \<Rightarrow> time_clip (of_int t)))"

definition pad_left :: "nat \<Rightarrow> string \<Rightarrow> string" where
  "pad_left n s = replicate (n - length s) CHR ''0'' @ s"

text \<open>The civil date of a day number counted from 1970-01-01, in the proleptic Gregorian
  calendar: (year, month, day).\<close>

definition civil_from_days :: "int \<Rightarrow> int \<times> int \<times> int" where
  "civil_from_days days =
     (let z = days + 719468;
          era = z div 146097;
          doe = z - era * 146097;
          yoe = (doe - doe div 1460 + doe div 36524 - doe div 146096) div 365;
          doy = doe - (365 * yoe + yoe div 4 - yoe div 100);
          mp = (5 * doy + 2) div 153;
          d = doy - (153 * mp + 2) div 5 + 1;
          m = (if mp < 10 then mp + 3 else mp - 9);
          y = yoe + era * 400 + (if m \<le> 2 then 1 else 0)
      in (y, m, d))"

definition iso_year :: "int \<Rightarrow> string" where
  "iso_year y =
     (if 0 \<le> y \<and> y \<le> 9999 then pad_left 4 (dec_int y)
      else (if y < 0 then ''-'' else ''+'') @ pad_left 6 (dec_int \<bar>y\<bar>))"

definition iso_format :: "int \<Rightarrow> string" where
  "iso_format t =
     (let (y, m, d) = civil_from_days (t div 86400000);
          r = t mod 86400000
      in iso_year y @ ''-'' @ pad_left 2 (dec_int m) @ ''-'' @ pad_left 2 (dec_int d)
         @ ''T'' @ pad_left 2 (dec_int (r div 3600000))
         @ '':'' @ pad_left 2 (dec_int (r mod 3600000 div 60000))
         @ '':'' @ pad_left 2 (dec_int (r mod 60000 div 1000))
         @ ''.'' @ pad_left 3 (dec_int (r mod 1000)) @ ''Z'')"

definition toISOString :: "int option \<Rightarrow> string js" where
  "toISOString d = (case d of
      None \<Rightarrow> Inl (Exn ''RangeError'' ''Invalid time value'')
    | Some t \<Rightarrow> Inr (iso_format t))"

section \<open>The upstream host and the HTTP client\<close>

text \<open>One outbound GET, as \<open>axios.get\<close> receives it.\<close>

record request =
  url :: string
  headers :: "(string \<times> string) list"
  responseType :: "string option"

text \<open>What \<open>axios.get\<close> does with it: it resolves with the body of the response, or rejects
  with an error that has a description and, when the host answered, the response with its
  status code and body.\<close>

record axios_response =
  status :: int
  data :: jsval

datatype axios_outcome =
    Resolved jsval
  | Rejected "axios_response option" string

text \<open>The upstream host answers a request, knowing the requests sent before it. The world
  a handler runs in is the list of requests sent so far and what was written to the error
  console.\<close>

type_synonym upstream = "request list \<Rightarrow> request \<Rightarrow> axios_outcome"

record world =
  sent :: "request list"
  stderr :: "jsval list list"

text \<open>The tagged result of both client wrappers: \<open>{data}\<close> or \<open>{error: {status, message}}\<close>.\<close>

datatype api_result =
    DataResult jsval
  | ErrorResult "int option" jsval

text \<open>The optional second argument of the wrappers.\<close>

record request_config =
  config_headers :: "(string \<times> string) list"
  config_responseType :: "string option"

definition no_config :: request_config where
  "no_config = \<lparr>config_headers = [], config_responseType = None\<rparr>"

text \<open>\<open>{Authorization: ..., ...extra}\<close>: a later property replaces the value of an earlier one
  of the same name and keeps its place.\<close>

definition merge_headers :: "string \<Rightarrow> (string \<times> string) list \<Rightarrow> (string \<times> string) list" where
  "merge_headers bearer extra =
     fold (\<lambda>(k, v). AList.update k v) extra [(''Authorization'', bearer)]"

text \<open>\<open>error.response?.status\<close> and \<open>error.response?.data || error.message\<close>.\<close>

definition error_status :: "axios_response option \<Rightarrow> int option" where
  "error_status r = map_option status r"

definition error_message :: "axios_response option \<Rightarrow> string \<Rightarrow> jsval" where
  "error_message r m =
     (let d = (case r of None \<Rightarrow> JUndefined | Some x \<Rightarrow> data x)
      in if truthy d then d else JStr m)"

section \<open>The variant with a registration wrapper\<close>

record config =
  BB_BASE_URL :: string
  BB_TOKEN :: string

text \<open>The request that \<open>bitbucketGet\<close> hands to \<open>axios.get\<close>.\<close>

definition get_request :: "config \<Rightarrow> string \<Rightarrow> request_config \<Rightarrow> request" where
  "get_request cfg path conf =
     \<lparr>url = BB_BASE_URL cfg @ path,
      headers = merge_headers (''Bearer '' @ BB_TOKEN cfg) (config_headers conf),
      responseType = (case config_responseType conf of
                        None \<Rightarrow> Some ''json''
                      | Some t \<Rightarrow> Some (if t = [] then ''json'' else t))\<rparr>"

definition bitbucketGet ::
  "config \<Rightarrow> upstream \<Rightarrow> string \<Rightarrow> request_config \<Rightarrow> world \<Rightarrow> api_result \<times> world" where
  "bitbucketGet cfg up path conf w =
     (let req = get_request cfg path conf;
          w' = w\<lparr>sent := sent w @ [req]\<rparr>
      in case up (sent w) req of
           Resolved d \<Rightarrow> (DataResult d, w')
         | Rejected r m \<Rightarrow> (ErrorResult (error_status r) (error_message r m), w'))"

text \<open>\<open>new Error(m)\<close>.\<close>

definition new_Error :: "jsval \<Rightarrow> jsexn" where
  "new_Error m = Exn ''Error'' (if m = JUndefined then [] else js_to_string m)"

definition getOrThrow :: "api_result \<Rightarrow> jsval js" where
  "getOrThrow result = (case result of
      ErrorResult st m \<Rightarrow> Inl (new_Error m)
    | DataResult d \<Rightarrow> Inr d)"

record text_block =
  block_type :: string
  block_text :: jsval

record ToolOutput =
  content :: "text_block list"

definition text_output :: "jsval \<Rightarrow> ToolOutput" where
  "text_output t = \<lparr>content = [\<lparr>block_type = ''text'', block_text = t\<rparr>]\<rparr>"

definition format :: "jsval \<Rightarrow> ToolOutput" where
  "format d = text_output (if is_string d then d else JSON_stringify d)"

text \<open>\<open>`${e.message || e}`\<close>: the message, or for an empty message the error as a string,
  which is then its name.\<close>

definition message_or_error :: "jsexn \<Rightarrow> string" where
  "message_or_error e =
     (if exn_message e \<noteq> [] then exn_message e else exn_name e)"

definition registerApiTool ::
  "('a \<Rightarrow> world \<Rightarrow> jsval js \<times> world) \<Rightarrow> 'a \<Rightarrow> world \<Rightarrow> ToolOutput \<times> world" where
  "registerApiTool logic args w =
     (case logic args w of
        (Inr result, w') \<Rightarrow> (format result, w')
      | (Inl e, w') \<Rightarrow> (format (JStr (''Unhandled error: '' @ message_or_error e)), w'))"

subsection \<open>The list and the projections\<close>

text \<open>\<open>a === b\<close> on two identifiers. Primitive values are equal when they are the same
  value. An array or object is equal to itself only; every one in a parsed payload is an
  object of its own, so the identifiers of two items are the same object exactly when the
  two items are at the same place of the list, which \<open>same\<close> says.\<close>

definition strict_equals :: "jsval \<Rightarrow> jsval \<Rightarrow> bool \<Rightarrow> bool" where
  "strict_equals a b same = (case a of
      JArr xs \<Rightarrow> same
    | JObj kvs \<Rightarrow> same
    | _ \<Rightarrow> a = b)"

text \<open>\<open>arr.findIndex((p) => p.id === pr.id)\<close>, with the items of \<open>arr\<close> numbered.\<close>

fun findIndex :: "(nat \<times> jsval) list \<Rightarrow> nat \<times> jsval \<Rightarrow> int js" where
  "findIndex [] ipr = Inr (- 1)"
| "findIndex ((j, p) # rest) (i, pr) =
     ebind (js_get p ''id'') (\<lambda>a.
     ebind (js_get pr ''id'') (\<lambda>b.
       if strict_equals a b (j = i) then Inr (int j) else findIndex rest (i, pr)))"

text \<open>\<open>arr.filter((pr, i, arr) => arr.findIndex((p) => p.id === pr.id) === i)\<close>.\<close>

fun filter_first :: "(nat \<times> jsval) list \<Rightarrow> (nat \<times> jsval) list \<Rightarrow> jsval list js" where
  "filter_first arr [] = Inr []"
| "filter_first arr ((i, pr) # rest) =
     ebind (findIndex arr (i, pr)) (\<lambda>k.
     ebind (filter_first arr rest) (\<lambda>kept.
       Inr (if k = int i then pr # kept else kept)))"

definition uniquePrs :: "jsval list \<Rightarrow> jsval list js" where
  "uniquePrs prs = filter_first (enumerate 0 prs) (enumerate 0 prs)"

text \<open>\<open>(r) => r.user?.displayName\<close>.\<close>

definition reviewer_name :: "jsval \<Rightarrow> jsval js" where
  "reviewer_name r = ebind (js_get r ''user'') (\<lambda>u. Inr (opt_get u ''displayName''))"

text \<open>The object literal that both variants build for an item of the list.\<close>

definition project_list_item :: "jsval \<Rightarrow> jsval js" where
  "project_list_item pr =
     ebind (js_get pr ''id'') (\<lambda>v_id.
     ebind (js_get pr ''title'') (\<lambda>v_title.
     ebind (js_get pr ''author'') (\<lambda>a.
     ebind (js_get pr ''reviewers'') (\<lambda>rs.
     ebind (opt_map ''pr.reviewers?.map'' rs reviewer_name) (\<lambda>v_reviewers.
     ebind (js_get pr ''state'') (\<lambda>v_state.
     ebind (js_get pr ''destination'') (\<lambda>dst.
     ebind (js_get pr ''fromRef'') (\<lambda>f1.
     ebind (js_get f1 ''repository'') (\<lambda>r1.
     ebind (js_get r1 ''project'') (\<lambda>p1.
     ebind (js_get p1 ''key'') (\<lambda>v_key.
     ebind (js_get pr ''fromRef'') (\<lambda>f2.
     ebind (js_get f2 ''repository'') (\<lambda>r2.
     ebind (js_get r2 ''slug'') (\<lambda>v_slug.
       Inr (JObj
         [(''id'', v_id),
          (''title'', v_title),
          (''author'', opt_get (opt_get a ''user'') ''displayName''),
          (''reviewers'', v_reviewers),
          (''state'', v_state),
          (''repository'', opt_get (opt_get dst ''repository'') ''full_name''),
          (''projectKey'', v_key),
          (''repositorySlug'', v_slug)])))))))))))))))"

text \<open>The object literal that both variants build for one pull request \<open>d\<close>, \<open>what\<close> being
  the text of the expression for it: \<open>d\<close> in the variant with the wrapper, \<open>data.data\<close> in
  the other.\<close>

definition pr_info_object :: "string \<Rightarrow> (string \<Rightarrow> int option) \<Rightarrow> jsval \<Rightarrow> jsval js" where
  "pr_info_object what date_parse d =
     ebind (js_get d ''id'') (\<lambda>v_id.
     ebind (js_get d ''title'') (\<lambda>v_title.
     ebind (js_get d ''description'') (\<lambda>v_description.
     ebind (js_get d ''author'') (\<lambda>a.
     ebind (js_get d ''reviewers'') (\<lambda>rs.
     ebind (opt_map (what @ ''.reviewers?.map'') rs reviewer_name) (\<lambda>v_reviewers.
     ebind (js_get d ''state'') (\<lambda>v_state.
     ebind (js_get d ''createdDate'') (\<lambda>c.
     ebind (toISOString (new_Date date_parse c)) (\<lambda>v_created.
     ebind (js_get d ''updatedDate'') (\<lambda>u.
     ebind (toISOString (new_Date date_parse u)) (\<lambda>v_updated.
       Inr (JObj
         [(''id'', v_id),
          (''title'', v_title),
          (''description'', v_description),
          (''author'', opt_get (opt_get a ''user'') ''displayName''),
          (''reviewers'', v_reviewers),
          (''state'', v_state),
          (''created_on'', JStr v_created),
          (''updated_on'', JStr v_updated)]))))))))))))"

definition project_pr_info :: "(string \<Rightarrow> int option) \<Rightarrow> jsval \<Rightarrow> jsval js" where
  "project_pr_info date_parse d = pr_info_object ''d'' date_parse d"

text \<open>The request paths. The number of a pull request is written as a template literal
  writes a number.\<close>

definition whoami_path :: string where
  "whoami_path = ''/plugins/servlet/applinks/whoami''"

definition users_path :: "jsval \<Rightarrow> string" where
  "users_path username = ''/rest/api/latest/users?filter='' @ js_to_string username"

definition inbox_path :: "string \<Rightarrow> string" where
  "inbox_path r = ''/rest/api/latest/inbox/pull-requests?state=OPEN&role='' @ r"

definition pr_path :: "string \<Rightarrow> string \<Rightarrow> rat \<Rightarrow> string" where
  "pr_path projectKey repositorySlug prId =
     ''/rest/api/latest/projects/'' @ projectKey @ ''/repos/'' @ repositorySlug
       @ ''/pull-requests/'' @ Number_toString prId"

definition diff_path :: "string \<Rightarrow> string \<Rightarrow> rat \<Rightarrow> string" where
  "diff_path projectKey repositorySlug prId = pr_path projectKey repositorySlug prId @ ''.diff''"

definition diff_config :: request_config where
  "diff_config = \<lparr>config_headers = [(''Accept'', ''text/plain'')], config_responseType = Some ''text''\<rparr>"

subsection \<open>The three tools\<close>

datatype role = Author | Reviewer | AllRoles

definition role_name :: "role \<Rightarrow> string" where
  "role_name r = (case r of Author \<Rightarrow> ''author'' | Reviewer \<Rightarrow> ''reviewer'' | AllRoles \<Rightarrow> ''all'')"

definition toUpperCase :: "string \<Rightarrow> string" where
  "toUpperCase s =
     map (\<lambda>c. if 97 \<le> (of_char c :: nat) \<and> (of_char c :: nat) \<le> 122
               then char_of ((of_char c :: nat) - 32) else c) s"

definition effective_roles :: "role \<Rightarrow> string list" where
  "effective_roles r =
     (if r = AllRoles then [''AUTHOR'', ''REVIEWER''] else [toUpperCase (role_name r)])"

text \<open>The loop over the roles: each turn sends one inbox query and appends its \<open>values\<close>;
  the first exception ends the loop.\<close>

fun fetch_roles ::
  "config \<Rightarrow> upstream \<Rightarrow> string list \<Rightarrow> jsval list \<Rightarrow> world \<Rightarrow> jsval list js \<times> world" where
  "fetch_roles cfg up [] allPrs w = (Inr allPrs, w)"
| "fetch_roles cfg up (r # rs) allPrs w =
     (case bitbucketGet cfg up (inbox_path r) no_config w of (res, w') \<Rightarrow>
        (case ebind (getOrThrow res) (\<lambda>prs. ebind (js_get prs ''values'') (spread ''prs.values'')) of
           Inl e \<Rightarrow> (Inl e, w')
         | Inr items \<Rightarrow> fetch_roles cfg up rs (allPrs @ items) w'))"

definition bitbucketlistprs_logic :: "config \<Rightarrow> upstream \<Rightarrow> role \<Rightarrow> world \<Rightarrow> jsval js \<times> world" where
  "bitbucketlistprs_logic cfg up r w =
     (case bitbucketGet cfg up whoami_path no_config w of (res1, w1) \<Rightarrow>
      (case getOrThrow res1 of
         Inl e \<Rightarrow> (Inl e, w1)
       | Inr username \<Rightarrow>
          (case bitbucketGet cfg up (users_path username) no_config w1 of (res2, w2) \<Rightarrow>
           (case ebind (getOrThrow res2) (\<lambda>userResp. ebind (js_get userResp ''values'') js_first) of
              Inl e \<Rightarrow> (Inl e, w2)
            | Inr user \<Rightarrow>
               if \<not> truthy (opt_get user ''slug'')
               then (Inl (new_Error (JStr ''Failed to resolve current user slug'')), w2)
               else (case fetch_roles cfg up (effective_roles r) [] w2 of
                       (Inl e, w3) \<Rightarrow> (Inl e, w3)
                     | (Inr allPrs, w3) \<Rightarrow>
                         (ebind (uniquePrs allPrs) (\<lambda>us.
                          ebind (emap project_list_item us) (\<lambda>ps. Inr (JArr ps))), w3))))))"

definition bitbucketgetpr_logic ::
  "config \<Rightarrow> upstream \<Rightarrow> (string \<Rightarrow> int option) \<Rightarrow> string \<times> string \<times> rat \<Rightarrow> world \<Rightarrow> jsval js \<times> world" where
  "bitbucketgetpr_logic cfg up date_parse args w =
     (case args of (projectKey, repositorySlug, prId) \<Rightarrow>
      (case bitbucketGet cfg up (pr_path projectKey repositorySlug prId) no_config w of (res, w') \<Rightarrow>
        (ebind (getOrThrow res) (project_pr_info date_parse), w')))"

definition bitbucketgetdiff_logic ::
  "config \<Rightarrow> upstream \<Rightarrow> string \<times> string \<times> rat \<Rightarrow> world \<Rightarrow> jsval js \<times> world" where
  "bitbucketgetdiff_logic cfg up args w =
     (case args of (projectKey, repositorySlug, prId) \<Rightarrow>
      (case bitbucketGet cfg up (diff_path projectKey repositorySlug prId) diff_config w of (res, w') \<Rightarrow>
        (getOrThrow res, w')))"

text \<open>A call of one of the registered tools, with its validated arguments, the number of a
  pull request being any number that the JSON text of a call can denote; the logic
  registered under the name of the tool, and the handler that \<open>registerApiTool\<close> makes of
  it.\<close>

datatype tool_call =
    Bitbucketlistprs role
  | Bitbucketgetpr string string rat
  | Bitbucketgetdiff string string rat

definition tool_logic ::
  "config \<Rightarrow> upstream \<Rightarrow> (string \<Rightarrow> int option) \<Rightarrow> tool_call \<Rightarrow> world \<Rightarrow> jsval js \<times> world" where
  "tool_logic cfg up date_parse c w = (case c of
      Bitbucketlistprs r \<Rightarrow> bitbucketlistprs_logic cfg up r w
    | Bitbucketgetpr k s n \<Rightarrow> bitbucketgetpr_logic cfg up date_parse (k, s, n) w
    | Bitbucketgetdiff k s n \<Rightarrow> bitbucketgetdiff_logic cfg up (k, s, n) w)"

definition call_tool ::
  "config \<Rightarrow> upstream \<Rightarrow> (string \<Rightarrow> int option) \<Rightarrow> tool_call \<Rightarrow> world \<Rightarrow> ToolOutput \<times> world" where
  "call_tool cfg up date_parse c w = (case c of
      Bitbucketlistprs r \<Rightarrow> registerApiTool (bitbucketlistprs_logic cfg up) r w
    | Bitbucketgetpr k s n \<Rightarrow> registerApiTool (bitbucketgetpr_logic cfg up date_parse) (k, s, n) w
    | Bitbucketgetdiff k s n \<Rightarrow> registerApiTool (bitbucketgetdiff_logic cfg up) (k, s, n) w)"

section \<open>The variant with the fixed base URL\<close>

definition BITBUCKET_BASE_URL :: string where
  "BITBUCKET_BASE_URL = ''https://git.namecheap.net''"

text \<open>\<open>process.env.BB_TOKEN\<close>, read at every request; unset, the template literal writes
  \<open>undefined\<close>.\<close>

definition bearer_of_env :: "string option \<Rightarrow> string" where
  "bearer_of_env tok = ''Bearer '' @ (case tok of None \<Rightarrow> ''undefined'' | Some t \<Rightarrow> t)"

text \<open>The request that \<open>bitbucketApiRequest\<close> hands to \<open>axios.get\<close>.\<close>

definition api_request :: "string option \<Rightarrow> string \<Rightarrow> request_config option \<Rightarrow> request" where
  "api_request tok path conf =
     \<lparr>url = BITBUCKET_BASE_URL @ path,
      headers = merge_headers (bearer_of_env tok)
                  (case conf of None \<Rightarrow> [] | Some c \<Rightarrow> config_headers c),
      responseType = (case conf of None \<Rightarrow> None | Some c \<Rightarrow> config_responseType c)\<rparr>"

definition bitbucketApiRequest ::
  "string option \<Rightarrow> upstream \<Rightarrow> string \<Rightarrow> request_config option \<Rightarrow> world \<Rightarrow> api_result \<times> world" where
  "bitbucketApiRequest tok up path conf w =
     (let req = api_request tok path conf;
          w' = w\<lparr>sent := sent w @ [req]\<rparr>
      in case up (sent w) req of
           Resolved d \<Rightarrow> (DataResult d, w')
         | Rejected r m \<Rightarrow>
             (ErrorResult (error_status r) (error_message r m),
              w'\<lparr>stderr := stderr w' @
                    [[JStr (''Error fetching from '' @ path @ '':''),
                      (case error_status r of None \<Rightarrow> JUndefined | Some n \<Rightarrow> JNum (of_int n)),
                      error_message r m]]\<rparr>))"

text \<open>\<open>typeof v === 'object' && v !== null && k in v\<close>.\<close>

definition object_with :: "string \<Rightarrow> jsval \<Rightarrow> bool" where
  "object_with k v = (case v of
      JObj kvs \<Rightarrow> map_of kvs k \<noteq> None
    | JArr xs \<Rightarrow> k = ''length'' \<or> k = ''values'' \<or> k = ''map''
    | _ \<Rightarrow> False)"

definition formatToolResponse :: "jsval \<Rightarrow> ToolOutput js" where
  "formatToolResponse d =
     (if is_string d then Inr (text_output d)
      else if object_with ''error'' d then
        ebind (js_get (js_prop d ''error'') ''message'') (\<lambda>m.
          Inr (text_output (JStr (''Error: '' @ js_to_string m))))
      else if object_with ''data'' d then Inr (text_output (JSON_stringify (js_prop d ''data'')))
      else Inr (text_output (JSON_stringify d)))"

text \<open>\<open>ToNumber\<close>, whose result may be \<open>NaN\<close> or infinite.\<close>

datatype number = NotANumber | PlusInfinity | MinusInfinity | Number rat

definition negate :: "number \<Rightarrow> number" where
  "negate n = (case n of
      NotANumber \<Rightarrow> NotANumber
    | PlusInfinity \<Rightarrow> MinusInfinity
    | MinusInfinity \<Rightarrow> PlusInfinity
    | Number x \<Rightarrow> Number (- x))"

text \<open>The number that a mathematical value not below zero rounds to.\<close>

definition round_number :: "rat \<Rightarrow> number" where
  "round_number x =
     (if x = 0 then Number 0
      else (case to_double x of None \<Rightarrow> PlusInfinity | Some y \<Rightarrow> Number y))"

text \<open>The numeric literals of a string: white space around them is dropped, and an empty
  string is zero; a binary, octal or hexadecimal integer with its prefix and no sign; or,
  after an optional sign, \<open>Infinity\<close> or decimal digits with an optional point and an
  optional exponent, of which the digits before or after the point may be missing, not
  both.\<close>

definition is_space :: "char \<Rightarrow> bool" where
  "is_space c =
     (c = CHR '' '' \<or> c = CHR 0x09 \<or> c = CHR 0x0A \<or> c = CHR 0x0B \<or> c = CHR 0x0C \<or> c = CHR 0x0D
      \<or> c = CHR 0xA0)"

definition trim :: "string \<Rightarrow> string" where
  "trim s = rev (dropWhile is_space (rev (dropWhile is_space s)))"

definition digit_in :: "int \<Rightarrow> char \<Rightarrow> int option" where
  "digit_in b c =
     (let n = (of_char c :: int);
          v = (if 48 \<le> n \<and> n \<le> 57 then n - 48
               else if 97 \<le> n \<and> n \<le> 102 then n - 87
               else if 65 \<le> n \<and> n \<le> 70 then n - 55
               else b)
      in if v < b then Some v else None)"

fun digits_value :: "int \<Rightarrow> int \<Rightarrow> string \<Rightarrow> int option" where
  "digits_value b acc [] = Some acc"
| "digits_value b acc (c # cs) =
     (case digit_in b c of None \<Rightarrow> None | Some d \<Rightarrow> digits_value b (b * acc + d) cs)"

definition numeral_value :: "int \<Rightarrow> string \<Rightarrow> int option" where
  "numeral_value b s = (if s = [] then None else digits_value b 0 s)"

definition is_digit :: "char \<Rightarrow> bool" where
  "is_digit c = (digit_in 10 c \<noteq> None)"

definition digits_or_zero :: "string \<Rightarrow> int" where
  "digits_or_zero s = (case digits_value 10 0 s of None \<Rightarrow> 0 | Some n \<Rightarrow> n)"

definition exponent_part :: "string \<Rightarrow> int option" where
  "exponent_part s = (case s of
      [] \<Rightarrow> Some 0
    | c # t \<Rightarrow>
        if c = CHR ''e'' \<or> c = CHR ''E'' then
          (case t of
             [] \<Rightarrow> None
           | d # u \<Rightarrow>
               if d = CHR ''+'' then numeral_value 10 u
               else if d = CHR ''-'' then map_option uminus (numeral_value 10 u)
               else numeral_value 10 t)
        else None)"

definition unsigned_decimal :: "string \<Rightarrow> rat option" where
  "unsigned_decimal s =
     (let ip = takeWhile is_digit s;
          r = dropWhile is_digit s;
          fp = (case r of [] \<Rightarrow> [] | c # t \<Rightarrow> if c = CHR ''.'' then takeWhile is_digit t else []);
          rest = (case r of [] \<Rightarrow> [] | c # t \<Rightarrow> if c = CHR ''.'' then dropWhile is_digit t else r)
      in if ip = [] \<and> fp = [] then None
         else (case exponent_part rest of
                 None \<Rightarrow> None
               | Some e \<Rightarrow>
                   Some ((of_int (digits_or_zero ip) + of_int (digits_or_zero fp) / 10 ^ length fp)
                         * pow10 e)))"

definition unsigned_number :: "string \<Rightarrow> number" where
  "unsigned_number s =
     (if s = ''Infinity'' then PlusInfinity
      else (case unsigned_decimal s of None \<Rightarrow> NotANumber | Some x \<Rightarrow> round_number x))"

definition radix_number :: "int \<Rightarrow> string \<Rightarrow> number" where
  "radix_number b s =
     (case numeral_value b s of None \<Rightarrow> NotANumber | Some n \<Rightarrow> round_number (of_int n))"

definition string_to_number :: "string \<Rightarrow> number" where
  "string_to_number s =
     (let t = trim s
      in if t = [] then Number 0
         else if take 2 t = ''0x'' \<or> take 2 t = ''0X'' then radix_number 16 (drop 2 t)
         else if take 2 t = ''0o'' \<or> take 2 t = ''0O'' then radix_number 8 (drop 2 t)
         else if take 2 t = ''0b'' \<or> take 2 t = ''0B'' then radix_number 2 (drop 2 t)
         else if hd t = CHR ''-'' then negate (unsigned_number (tl t))
         else if hd t = CHR ''+'' then unsigned_number (tl t)
         else unsigned_number t)"

definition to_number :: "jsval \<Rightarrow> number" where
  "to_number v = (case v of
      JUndefined \<Rightarrow> NotANumber
    | JNull \<Rightarrow> Number 0
    | JBool b \<Rightarrow> Number (if b then 1 else 0)
    | JNum n \<Rightarrow> Number n
    | JStr s \<Rightarrow> string_to_number s
    | JArr xs \<Rightarrow> string_to_number (js_to_string v)
    | JObj kvs \<Rightarrow> NotANumber
    | JFun n \<Rightarrow> NotANumber)"

text \<open>\<open>v > 0\<close>.\<close>

definition greater_than_zero :: "jsval \<Rightarrow> bool" where
  "greater_than_zero v = (case to_number v of
      Number x \<Rightarrow> 0 < x
    | PlusInfinity \<Rightarrow> True
    | _ \<Rightarrow> False)"

text \<open>\<open>if (d.values && d.values.length > 0) user = d.values[0]\<close>, from \<open>user\<close> undefined.\<close>

definition first_user :: "jsval \<Rightarrow> jsval js" where
  "first_user d =
     ebind (js_get d ''values'') (\<lambda>vs.
       if \<not> truthy vs then Inr JUndefined
       else ebind (js_get vs ''length'') (\<lambda>n.
         if greater_than_zero n then js_first vs else Inr JUndefined))"

text \<open>One inbox query of this variant: a failed query adds nothing, and so does an answer
  whose \<open>values\<close> is falsy.\<close>

definition inbox_query ::
  "string option \<Rightarrow> upstream \<Rightarrow> string \<Rightarrow> jsval list \<Rightarrow> world \<Rightarrow> jsval list js \<times> world" where
  "inbox_query tok up r prs w =
     (case bitbucketApiRequest tok up (inbox_path r) None w of (response, w') \<Rightarrow>
        (case response of
           ErrorResult st m \<Rightarrow> (Inr prs, w')
         | DataResult d \<Rightarrow>
             (ebind (js_get d ''values'') (\<lambda>vs.
                if truthy vs then ebind (spread ''response.data.values'' vs) (\<lambda>items. Inr (prs @ items))
                else Inr prs), w')))"

definition could_not_determine :: ToolOutput where
  "could_not_determine = text_output (JStr ''Could not determine the current user.'')"

text \<open>The handler of \<open>bitbucketlistprs\<close>. \<open>Inl\<close> is an exception that leaves the handler: this
  variant registers its handlers as they are.\<close>

definition list_after_user ::
  "string option \<Rightarrow> upstream \<Rightarrow> role \<Rightarrow> jsval \<Rightarrow> world \<Rightarrow> ToolOutput js \<times> world" where
  "list_after_user tok up r user w =
     (if \<not> truthy user \<or> \<not> truthy (js_prop user ''slug'') then (Inr could_not_determine, w)
      else
        (case (if r = Author \<or> r = AllRoles then inbox_query tok up ''AUTHOR'' [] w else (Inr [], w)) of
           (Inl e, w1) \<Rightarrow> (Inl e, w1)
         | (Inr prs1, w1) \<Rightarrow>
            (case (if r = Reviewer \<or> r = AllRoles then inbox_query tok up ''REVIEWER'' prs1 w1
                   else (Inr prs1, w1)) of
               (Inl e, w2) \<Rightarrow> (Inl e, w2)
             | (Inr prs2, w2) \<Rightarrow>
                 (ebind (uniquePrs prs2) (\<lambda>us.
                  ebind (emap project_list_item us) (\<lambda>ps. formatToolResponse (JArr ps))), w2))))"

definition bitbucketlistprs_handler ::
  "string option \<Rightarrow> upstream \<Rightarrow> role \<Rightarrow> world \<Rightarrow> ToolOutput js \<times> world" where
  "bitbucketlistprs_handler tok up r w =
     (case bitbucketApiRequest tok up whoami_path None w of (whoamiResponse, w1) \<Rightarrow>
      (case whoamiResponse of
         ErrorResult st m \<Rightarrow>
           (formatToolResponse (JStr (''Error fetching user: '' @ js_to_string m)), w1)
       | DataResult username \<Rightarrow>
           if truthy username then
             (case bitbucketApiRequest tok up (users_path username) None w1 of (userDetailsResponse, w2) \<Rightarrow>
              (case userDetailsResponse of
                 ErrorResult st m \<Rightarrow>
                   (formatToolResponse (JStr (''Error fetching user details: '' @ js_to_string m)), w2)
               | DataResult d \<Rightarrow>
                   (case first_user d of
                      Inl e \<Rightarrow> (Inl e, w2)
                    | Inr user \<Rightarrow> list_after_user tok up r user w2)))
           else list_after_user tok up r JUndefined w1))"

definition bitbucketgetpr_handler ::
  "string option \<Rightarrow> upstream \<Rightarrow> (string \<Rightarrow> int option) \<Rightarrow> string \<times> string \<times> rat \<Rightarrow> world
     \<Rightarrow> ToolOutput js \<times> world" where
  "bitbucketgetpr_handler tok up date_parse args w =
     (case args of (projectKey, repositorySlug, prId) \<Rightarrow>
      (case bitbucketApiRequest tok up (pr_path projectKey repositorySlug prId) None w of (res, w') \<Rightarrow>
        (case res of
           ErrorResult st m \<Rightarrow>
             (formatToolResponse (JStr (''Error fetching PR info: '' @ js_to_string m)), w')
         | DataResult d \<Rightarrow>
             (ebind (pr_info_object ''data.data'' date_parse d) formatToolResponse, w'))))"

definition bitbucketgetdiff_handler ::
  "string option \<Rightarrow> upstream \<Rightarrow> string \<times> string \<times> rat \<Rightarrow> world \<Rightarrow> ToolOutput js \<times> world" where
  "bitbucketgetdiff_handler tok up args w =
     (case args of (projectKey, repositorySlug, prId) \<Rightarrow>
      (case bitbucketApiRequest tok up (diff_path projectKey repositorySlug prId) (Some diff_config) w of
         (res, w') \<Rightarrow>
        (case res of
           ErrorResult st m \<Rightarrow>
             (formatToolResponse (JStr (''Error fetching PR diff: '' @ js_to_string m)), w')
         | DataResult d \<Rightarrow> (Inr (text_output d), w'))))"

section \<open>Notions for the properties\<close>

text \<open>When the projections return. The reviewers of a pull request are read without an
  exception when \<open>reviewers\<close> is missing or \<open>null\<close>, or is an array with no entry that is
  \<open>undefined\<close> or \<open>null\<close>; then they are read as \<open>reviewer_names\<close> says.\<close>

definition reviewers_ok :: "jsval \<Rightarrow> bool" where
  "reviewers_ok rs = (case rs of
      JUndefined \<Rightarrow> True
    | JNull \<Rightarrow> True
    | JArr xs \<Rightarrow> list_all (\<lambda>r. \<not> nullish r) xs
    | _ \<Rightarrow> False)"

definition reviewer_names :: "jsval \<Rightarrow> jsval" where
  "reviewer_names rs = (case rs of
      JArr xs \<Rightarrow> JArr (map (\<lambda>r. opt_get (js_prop r ''user'') ''displayName'') xs)
    | _ \<Rightarrow> JUndefined)"

text \<open>An item of the list is read without an exception when it is not nullish, its
  reviewers are read so, and it has \<open>fromRef.repository.project\<close>; then its projection is
  \<open>list_projection\<close>.\<close>

definition projectable :: "jsval \<Rightarrow> bool" where
  "projectable pr =
     (\<not> nullish pr
      \<and> reviewers_ok (js_prop pr ''reviewers'')
      \<and> \<not> nullish (js_prop pr ''fromRef'')
      \<and> \<not> nullish (js_prop (js_prop pr ''fromRef'') ''repository'')
      \<and> \<not> nullish (js_prop (js_prop (js_prop pr ''fromRef'') ''repository'') ''project''))"

definition list_projection :: "jsval \<Rightarrow> jsval" where
  "list_projection pr =
     JObj [(''id'', js_prop pr ''id''),
           (''title'', js_prop pr ''title''),
           (''author'', opt_get (opt_get (js_prop pr ''author'') ''user'') ''displayName''),
           (''reviewers'', reviewer_names (js_prop pr ''reviewers'')),
           (''state'', js_prop pr ''state''),
           (''repository'', opt_get (opt_get (js_prop pr ''destination'') ''repository'') ''full_name''),
           (''projectKey'',
              js_prop (js_prop (js_prop (js_prop pr ''fromRef'') ''repository'') ''project'') ''key''),
           (''repositorySlug'', js_prop (js_prop (js_prop pr ''fromRef'') ''repository'') ''slug'')]"

text \<open>Deduplication by identifier, in the words of the specification: going through the
  items in order, an item is kept when no item seen before it has the same identifier. Two
  different items have the same identifier when \<open>===\<close> holds of their identifiers.\<close>

definition item_id :: "jsval \<Rightarrow> jsval" where
  "item_id pr = js_prop pr ''id''"

definition same_id :: "jsval \<Rightarrow> jsval \<Rightarrow> bool" where
  "same_id p pr = strict_equals (item_id p) (item_id pr) False"

fun first_seen :: "jsval list \<Rightarrow> jsval list \<Rightarrow> jsval list" where
  "first_seen seen [] = []"
| "first_seen seen (pr # rest) =
     (if list_ex (\<lambda>p. same_id p pr) seen then first_seen (seen @ [pr]) rest
      else pr # first_seen (seen @ [pr]) rest)"

section \<open>Runs and example hosts\<close>

text \<open>The answers of the host to the requests \<open>qs\<close>, sent in this order after the requests
  \<open>h\<close>.\<close>

fun outcomes :: "upstream \<Rightarrow> request list \<Rightarrow> request list \<Rightarrow> axios_outcome list" where
  "outcomes up h [] = []"
| "outcomes up h (q # qs) = up h q # outcomes up (h @ [q]) qs"

definition is_resolved :: "axios_outcome \<Rightarrow> bool" where
  "is_resolved a = (case a of Resolved d \<Rightarrow> True | Rejected r m \<Rightarrow> False)"

text \<open>A run stops at the first rejected request: of the answers to the requests of a run, in
  the order they were sent, only the last may be a rejection, and then the run ends with the
  error made from it.\<close>

definition stops_at_rejection :: "axios_outcome list \<Rightarrow> 'a js \<Rightarrow> bool" where
  "stops_at_rejection os res = (case rev os of
      [] \<Rightarrow> True
    | a # before \<Rightarrow>
        list_all is_resolved before
        \<and> (case a of
             Resolved d \<Rightarrow> True
           | Rejected r m \<Rightarrow> res = Inl (new_Error (error_message r m))))"

text \<open>The addresses that listing the pull requests for a role may ask for, under a base
  URL.\<close>

definition listprs_urls :: "string \<Rightarrow> role \<Rightarrow> string set" where
  "listprs_urls base r =
     {base @ whoami_path} \<union> range (\<lambda>u. base @ users_path u)
     \<union> (\<lambda>x. base @ inbox_path x) ` set (effective_roles r)"

text \<open>A host that gives the answers of a list in turn, whatever is asked.\<close>

definition scripted :: "axios_outcome list \<Rightarrow> upstream" where
  "scripted answers h q =
     (if length h < length answers then answers ! length h else Rejected None ''socket hang up'')"

definition w0 :: world where
  "w0 = \<lparr>sent = [], stderr = []\<rparr>"

definition cfg0 :: config where
  "cfg0 = \<lparr>BB_BASE_URL = ''https://bitbucket.example'', BB_TOKEN = ''t0ken''\<rparr>"

definition no_dates :: "string \<Rightarrow> int option" where
  "no_dates s = None"

text \<open>Payloads of the host: the answer of the user search for \<open>jdoe\<close>, a pull request with
  the fields that the list reads, and an inbox page.\<close>

definition users_jdoe :: jsval where
  "users_jdoe =
     JObj [(''values'',
       JArr [JObj [(''name'', JStr ''jdoe''), (''slug'', JStr ''jdoe''), (''displayName'', JStr ''J. Doe'')]])]"

definition pull_request :: "rat \<Rightarrow> string \<Rightarrow> jsval" where
  "pull_request n t =
     JObj [(''id'', JNum n),
           (''title'', JStr t),
           (''state'', JStr ''OPEN''),
           (''author'', JObj [(''user'', JObj [(''displayName'', JStr ''J. Doe'')])]),
           (''reviewers'', JArr [JObj [(''user'', JObj [(''displayName'', JStr ''R. Roe'')])]]),
           (''fromRef'', JObj [(''repository'',
              JObj [(''slug'', JStr ''repo''), (''project'', JObj [(''key'', JStr ''PRJ'')])])])]"

definition inbox_page :: "jsval list \<Rightarrow> jsval" where
  "inbox_page prs = JObj [(''values'', JArr prs)]"


text \<open>A host on which the identity lookup and the user search succeed and the two inbox
  queries, asked in the order \<open>AUTHOR\<close>, \<open>REVIEWER\<close>, find the items \<open>A\<close> and \<open>R\<close>.\<close>

definition inbox_host :: "jsval list \<Rightarrow> jsval list \<Rightarrow> upstream" where
  "inbox_host A R =
     scripted [Resolved (JStr ''jdoe''),
               Resolved users_jdoe,
               Resolved (inbox_page A),
               Resolved (inbox_page R)]"

section \<open>The HTTP client wrappers\<close>

lemma bitbucketGet_Resolved:
  "up (sent w) (get_request cfg path conf) = Resolved d \<Longrightarrow>
   bitbucketGet cfg up path conf w = (DataResult d, w\<lparr>sent := sent w @ [get_request cfg path conf]\<rparr>)"
  by (simp add: bitbucketGet_def Let_def)

lemma bitbucketGet_Rejected:
  "up (sent w) (get_request cfg path conf) = Rejected r m \<Longrightarrow>
   bitbucketGet cfg up path conf w =
     (ErrorResult (error_status r) (error_message r m), w\<lparr>sent := sent w @ [get_request cfg path conf]\<rparr>)"
  by (simp add: bitbucketGet_def Let_def)

lemma bitbucketApiRequest_Resolved:
  "up (sent w) (api_request tok path conf) = Resolved d \<Longrightarrow>
   bitbucketApiRequest tok up path conf w = (DataResult d, w\<lparr>sent := sent w @ [api_request tok path conf]\<rparr>)"
  by (simp add: bitbucketApiRequest_def Let_def)


text \<open>
  Claim C2. Both client wrappers return a tagged result for every path, configuration and
  answer of the host, and send exactly one request. When the request resolves, the result is
  the data variant with the body. When it is rejected with a response, the result is the
  error variant with the status code of the response and, as message, the body of the
  response, or the description of the error for a falsy body. When it is rejected without
  a response, the error variant has no status and the description as message.
\<close>

theorem http_wrapper_result:
  "(up (sent w) (get_request cfg path conf) = Resolved d \<longrightarrow>
      fst (bitbucketGet cfg up path conf w) = DataResult d)
   \<and> (up (sent w) (get_request cfg path conf) = Rejected (Some resp) m \<longrightarrow>
      fst (bitbucketGet cfg up path conf w) =
        ErrorResult (Some (status resp)) (if truthy (data resp) then data resp else JStr m))
   \<and> (up (sent w) (get_request cfg path conf) = Rejected None m \<longrightarrow>
      fst (bitbucketGet cfg up path conf w) = ErrorResult None (JStr m))
   \<and> (up (sent w) (api_request tok path conf') = Resolved d \<longrightarrow>
      fst (bitbucketApiRequest tok up path conf' w) = DataResult d)
   \<and> (up (sent w) (api_request tok path conf') = Rejected (Some resp) m \<longrightarrow>
      fst (bitbucketApiRequest tok up path conf' w) =
        ErrorResult (Some (status resp)) (if truthy (data resp) then data resp else JStr m))
   \<and> (up (sent w) (api_request tok path conf') = Rejected None m \<longrightarrow>
      fst (bitbucketApiRequest tok up path conf' w) = ErrorResult None (JStr m))
   \<and> sent (snd (bitbucketGet cfg up path conf w)) = sent w @ [get_request cfg path conf]
   \<and> sent (snd (bitbucketApiRequest tok up path conf' w)) = sent w @ [api_request tok path conf']"
  by (auto simp: bitbucketGet_def bitbucketApiRequest_def Let_def error_status_def error_message_def
      truthy_def split: axios_outcome.splits)

theorem http_wrapper_result_witness:
  "fst (bitbucketGet cfg0 (scripted [Resolved (JStr ''jdoe'')]) whoami_path no_config w0)
     = DataResult (JStr ''jdoe'')
   \<and> fst (bitbucketGet cfg0
           (scripted [Rejected (Some \<lparr>status = 404, data = JStr ''no such page''\<rparr>)
                        ''Request failed with status code 404''])
           whoami_path no_config w0)
     = ErrorResult (Some 404) (JStr ''no such page'')
   \<and> fst (bitbucketApiRequest None (scripted [Rejected None ''connect ECONNREFUSED''])
           whoami_path None w0)
     = ErrorResult None (JStr ''connect ECONNREFUSED'')"
  using http_wrapper_result [of "scripted [Resolved (JStr ''jdoe'')]" w0 cfg0 whoami_path no_config
          "JStr ''jdoe''"]
        http_wrapper_result [of "scripted [Rejected (Some \<lparr>status = 404, data = JStr ''no such page''\<rparr>)
                                             ''Request failed with status code 404'']"
          w0 cfg0 whoami_path no_config _ "\<lparr>status = 404, data = JStr ''no such page''\<rparr>"
          "''Request failed with status code 404''"]
        http_wrapper_result [of "scripted [Rejected None ''connect ECONNREFUSED'']" w0 _ whoami_path _ _ _
          "''connect ECONNREFUSED''" None None]
  by (simp add: scripted_def w0_def truthy_def)

section \<open>Listing pull requests with the fixed base URL\<close>


lemma list_after_user_no_user:
  "\<not> truthy user \<or> \<not> truthy (js_prop user ''slug'') \<Longrightarrow>
   list_after_user tok up r user w = (Inr could_not_determine, w)"
  by (simp add: list_after_user_def)

text \<open>
  Claim C10. With the fixed base URL, when the identity lookup resolves with a falsy user
  name, the handler sends no other request than the lookup, neither the user search nor an
  inbox query, and answers with the text \<open>Could not determine the current user.\<close>
\<close>

theorem empty_username_skips_search:
  assumes "up (sent w) (api_request tok whoami_path None) = Resolved username"
    and "\<not> truthy username"
  shows "bitbucketlistprs_handler tok up r w =
           (Inr (text_output (JStr ''Could not determine the current user.'')),
            w\<lparr>sent := sent w @ [api_request tok whoami_path None]\<rparr>)"
  using assms
  by (simp add: bitbucketlistprs_handler_def bitbucketApiRequest_Resolved list_after_user_no_user
      truthy_def could_not_determine_def)

theorem empty_username_skips_search_witness:
  "scripted [Resolved (JStr '''')] (sent w0) (api_request None whoami_path None) = Resolved (JStr '''')
   \<and> \<not> truthy (JStr '''')
   \<and> fst (bitbucketlistprs_handler None (scripted [Resolved (JStr '''')]) AllRoles w0)
        = Inr (text_output (JStr ''Could not determine the current user.''))
   \<and> map url (sent (snd (bitbucketlistprs_handler None (scripted [Resolved (JStr '''')]) AllRoles w0)))
        = [''https://git.namecheap.net/plugins/servlet/applinks/whoami'']"
  using empty_username_skips_search [of "scripted [Resolved (JStr '''')]" w0 None "JStr ''''" AllRoles]
  by (simp add: scripted_def w0_def truthy_def api_request_def BITBUCKET_BASE_URL_def whoami_path_def)

section \<open>Runs of the list tool\<close>

lemma outcomes_append:
  "outcomes up h (a @ b) = outcomes up h a @ outcomes up (h @ a) b"
  by (induction a arbitrary: h) simp_all

lemma stops_at_rejection_append:
  "list_all is_resolved os1 \<Longrightarrow> stops_at_rejection os2 res \<Longrightarrow> stops_at_rejection (os1 @ os2) res"
  by (cases os2 rule: rev_cases) (auto simp: stops_at_rejection_def is_resolved_def split: list.splits axios_outcome.splits)

lemma stops_at_rejection_Inr:
  "stops_at_rejection os (Inr v) \<Longrightarrow> list_all is_resolved os"
  by (cases os rule: rev_cases) (auto simp: stops_at_rejection_def is_resolved_def split: axios_outcome.splits)

lemma stops_at_rejection_resolved:
  "list_all is_resolved os \<Longrightarrow> stops_at_rejection os res"
  by (cases os rule: rev_cases) (auto simp: stops_at_rejection_def is_resolved_def split: axios_outcome.splits)

lemma bitbucketGet_run:
  assumes "bitbucketGet cfg up path conf w = (res, w')"
  shows "sent w' = sent w @ [get_request cfg path conf]
         \<and> stderr w' = stderr w
         \<and> stops_at_rejection (outcomes up (sent w) [get_request cfg path conf]) (getOrThrow res)
         \<and> (\<forall>d. res = DataResult d \<longrightarrow> up (sent w) (get_request cfg path conf) = Resolved d)"
  using assms
  by (auto simp: bitbucketGet_def Let_def stops_at_rejection_def getOrThrow_def
      split: axios_outcome.splits)

lemma getOrThrow_Inr: "getOrThrow res = Inr d \<Longrightarrow> res = DataResult d"
  by (cases res) (simp_all add: getOrThrow_def)

lemma ebind_Inr: "ebind m f = Inr y \<Longrightarrow> \<exists>x. m = Inr x \<and> f x = Inr y"
  by (cases m) (simp_all add: ebind_def)

lemma ebind_Inr_left: "ebind (Inr x) f = f x"
  by (simp add: ebind_def)

lemma fetch_roles_run:
  "fetch_roles cfg up rs acc w = (res, w') \<Longrightarrow>
   \<exists>qs. sent w' = sent w @ qs
      \<and> stderr w' = stderr w
      \<and> map url qs = take (length qs) (map (\<lambda>r. BB_BASE_URL cfg @ inbox_path r) rs)
      \<and> stops_at_rejection (outcomes up (sent w) qs) res"
proof (induction rs arbitrary: acc w)
  case Nil
  then show ?case by (auto simp: stops_at_rejection_def)
next
  case (Cons r rs)
  obtain res1 w1 where g: "bitbucketGet cfg up (inbox_path r) no_config w = (res1, w1)"
    by (cases "bitbucketGet cfg up (inbox_path r) no_config w")
  let ?q = "get_request cfg (inbox_path r) no_config"
  from bitbucketGet_run [OF g]
  have s1: "sent w1 = sent w @ [?q]" "stderr w1 = stderr w"
    and st: "stops_at_rejection (outcomes up (sent w) [?q]) (getOrThrow res1)"
    by simp_all
  have u: "url ?q = BB_BASE_URL cfg @ inbox_path r" by (simp add: get_request_def)
  show ?case
  proof (cases "ebind (getOrThrow res1) (\<lambda>prs. ebind (js_get prs ''values'') (spread ''prs.values''))")
    case (Inl e)
    note failed = Inl
    with Cons.prems g have r: "res = Inl e" "w' = w1" by simp_all
    have "stops_at_rejection (outcomes up (sent w) [?q]) res"
    proof (cases "getOrThrow res1")
      case (Inl e')
      with failed have "e' = e" by (simp add: ebind_def)
      with st Inl r show ?thesis
        by (auto simp: stops_at_rejection_def split: axios_outcome.splits)
    next
      case (Inr d)
      with st have "list_all is_resolved (outcomes up (sent w) [?q])"
        by (rule_tac stops_at_rejection_Inr [of _ d]) simp
      then show ?thesis by (rule stops_at_rejection_resolved)
    qed
    with r s1 u show ?thesis
      by (intro exI [of _ "[?q]"]) simp
  next
    case (Inr items)
    with Cons.prems g have f: "fetch_roles cfg up rs (acc @ items) w1 = (res, w')" by simp
    from Inr obtain d where d: "getOrThrow res1 = Inr d" by (auto dest: ebind_Inr)
    with st have r1: "list_all is_resolved (outcomes up (sent w) [?q])"
      by (rule_tac stops_at_rejection_Inr [of _ d]) simp
    from Cons.IH [OF f] obtain qs where qs: "sent w' = sent w1 @ qs" "stderr w' = stderr w1"
      "map url qs = take (length qs) (map (\<lambda>r. BB_BASE_URL cfg @ inbox_path r) rs)"
      "stops_at_rejection (outcomes up (sent w1) qs) res"
      by blast
    have o: "outcomes up (sent w) (?q # qs) = outcomes up (sent w) [?q] @ outcomes up (sent w1) qs"
      using outcomes_append [of up "sent w" "[?q]" qs] s1 by simp
    have "stops_at_rejection (outcomes up (sent w) (?q # qs)) res"
      unfolding o using r1 qs(4) by (rule stops_at_rejection_append)
    with qs(1,2,3) s1 u show ?thesis
      by (intro exI [of _ "?q # qs"]) simp
  qed
qed


lemma stops_at_rejection_ebind:
  "stops_at_rejection os m \<Longrightarrow> stops_at_rejection os (ebind m f)"
  by (cases os rule: rev_cases; cases m)
     (auto simp: stops_at_rejection_def ebind_def split: axios_outcome.splits)

lemma bitbucketlistprs_logic_run:
  assumes "bitbucketlistprs_logic cfg up r w = (res, w')"
  shows "\<exists>qs. sent w' = sent w @ qs
      \<and> url ` set qs \<subseteq> listprs_urls (BB_BASE_URL cfg) r
      \<and> stops_at_rejection (outcomes up (sent w) qs) res"
proof -
  let ?q1 = "get_request cfg whoami_path no_config"
  obtain res1 w1 where g1: "bitbucketGet cfg up whoami_path no_config w = (res1, w1)"
    by (cases "bitbucketGet cfg up whoami_path no_config w")
  from bitbucketGet_run [OF g1]
  have s1: "sent w1 = sent w @ [?q1]"
    and st1: "stops_at_rejection (outcomes up (sent w) [?q1]) (getOrThrow res1)"
    by simp_all
  have u1: "url ?q1 \<in> listprs_urls (BB_BASE_URL cfg) r" by (simp add: get_request_def listprs_urls_def)
  show ?thesis
  proof (cases "getOrThrow res1")
    case (Inl e)
    with assms g1 have "res = Inl e" "w' = w1" by (simp_all add: bitbucketlistprs_logic_def)
    with st1 Inl s1 u1 show ?thesis
      by (intro exI [of _ "[?q1]"]) (auto simp: stops_at_rejection_def split: axios_outcome.splits)
  next
    case (Inr username)
    let ?q2 = "get_request cfg (users_path username) no_config"
    from st1 Inr have r1: "list_all is_resolved (outcomes up (sent w) [?q1])"
      by (rule_tac stops_at_rejection_Inr [of _ username]) simp
    obtain res2 w2 where g2: "bitbucketGet cfg up (users_path username) no_config w1 = (res2, w2)"
      by (cases "bitbucketGet cfg up (users_path username) no_config w1")
    from bitbucketGet_run [OF g2]
    have s2: "sent w2 = sent w1 @ [?q2]"
      and st2: "stops_at_rejection (outcomes up (sent w1) [?q2]) (getOrThrow res2)"
      by simp_all
    have u2: "url ?q2 \<in> listprs_urls (BB_BASE_URL cfg) r" by (simp add: get_request_def listprs_urls_def)
    have o2: "outcomes up (sent w) [?q1, ?q2] = outcomes up (sent w) [?q1] @ outcomes up (sent w1) [?q2]"
      using outcomes_append [of up "sent w" "[?q1]" "[?q2]"] s1 by simp
    let ?user = "ebind (getOrThrow res2) (\<lambda>userResp. ebind (js_get userResp ''values'') js_first)"
    have stu: "stops_at_rejection (outcomes up (sent w1) [?q2]) ?user"
      using st2 by (rule stops_at_rejection_ebind)
    show ?thesis
    proof (cases ?user)
      case (Inl e)
      with assms g1 g2 Inr have "res = Inl e" "w' = w2" by (simp_all add: bitbucketlistprs_logic_def)
      moreover have "stops_at_rejection (outcomes up (sent w) [?q1, ?q2]) ?user"
        unfolding o2 using r1 stu by (rule stops_at_rejection_append)
      ultimately show ?thesis using Inl s1 s2 u1 u2
        by (intro exI [of _ "[?q1, ?q2]"]) simp
    next
      case user: (Inr user)
      from stu user have "stops_at_rejection (outcomes up (sent w1) [?q2]) (Inr user :: jsval js)" by simp
      then have r2: "list_all is_resolved (outcomes up (sent w1) [?q2])"
        by (rule stops_at_rejection_Inr)
      have r12: "list_all is_resolved (outcomes up (sent w) [?q1, ?q2])"
        unfolding o2 using r1 r2 by simp
      show ?thesis
      proof (cases "truthy (opt_get user ''slug'')")
        case False
        with assms g1 g2 Inr user have "w' = w2" by (simp_all add: bitbucketlistprs_logic_def)
        with r12 s1 s2 u1 u2 show ?thesis
          by (intro exI [of _ "[?q1, ?q2]"]) (simp add: stops_at_rejection_resolved)
      next
        case True
        obtain res3 w3 where g3: "fetch_roles cfg up (effective_roles r) [] w2 = (res3, w3)"
          by (cases "fetch_roles cfg up (effective_roles r) [] w2")
        from fetch_roles_run [OF g3] obtain qs where qs: "sent w3 = sent w2 @ qs"
          "map url qs = take (length qs) (map (\<lambda>r. BB_BASE_URL cfg @ inbox_path r) (effective_roles r))"
          "stops_at_rejection (outcomes up (sent w2) qs) res3"
          by blast
        have res: "res = ebind res3 (\<lambda>allPrs. ebind (uniquePrs allPrs) (\<lambda>us.
                          ebind (emap project_list_item us) (\<lambda>ps. Inr (JArr ps))))" and w': "w' = w3"
          using assms g1 g2 g3 Inr user True
          by (cases res3; simp add: bitbucketlistprs_logic_def ebind_def)+
        have o3: "outcomes up (sent w) (?q1 # ?q2 # qs)
                    = outcomes up (sent w) [?q1, ?q2] @ outcomes up (sent w2) qs"
          using outcomes_append [of up "sent w" "[?q1, ?q2]" qs] s1 s2 by simp
        have "stops_at_rejection (outcomes up (sent w2) qs) res"
          unfolding res using qs(3) by (rule stops_at_rejection_ebind)
        with r12 have "stops_at_rejection (outcomes up (sent w) (?q1 # ?q2 # qs)) res"
          unfolding o3 by (rule stops_at_rejection_append)
        moreover have "url ` set qs \<subseteq> listprs_urls (BB_BASE_URL cfg) r"
        proof -
          have "set (map url qs) \<subseteq> set (map (\<lambda>r. BB_BASE_URL cfg @ inbox_path r) (effective_roles r))"
            unfolding qs(2) by (rule set_take_subset)
          then show ?thesis by (auto simp: listprs_urls_def)
        qed
        ultimately show ?thesis using qs(1) w' s1 s2 u1 u2
          by (intro exI [of _ "?q1 # ?q2 # qs"]) simp
      qed
    qed
  qed
qed


lemma bitbucketApiRequest_sent:
  "bitbucketApiRequest tok up path conf w = (res, w') \<Longrightarrow>
   sent w' = sent w @ [api_request tok path conf]"
  by (auto simp: bitbucketApiRequest_def Let_def split: axios_outcome.splits)

lemma inbox_query_sent:
  "inbox_query tok up r prs w = (res, w') \<Longrightarrow> sent w' = sent w @ [api_request tok (inbox_path r) None]"
  by (auto simp: inbox_query_def split: prod.splits api_result.splits dest: bitbucketApiRequest_sent)

lemma effective_roles_Author: "effective_roles Author = [''AUTHOR'']"
  by code_simp

lemma effective_roles_Reviewer: "effective_roles Reviewer = [''REVIEWER'']"
  by code_simp

lemma effective_roles_AllRoles: "effective_roles AllRoles = [''AUTHOR'', ''REVIEWER'']"
  by (simp add: effective_roles_def)

lemmas effective_roles_simps = effective_roles_Author effective_roles_Reviewer effective_roles_AllRoles

lemma list_after_user_sent:
  assumes "list_after_user tok up r user w = (res, w')"
  shows "\<exists>qs. sent w' = sent w @ qs
      \<and> url ` set qs \<subseteq> (\<lambda>x. BITBUCKET_BASE_URL @ inbox_path x) ` set (effective_roles r)"
proof (cases "\<not> truthy user \<or> \<not> truthy (js_prop user ''slug'')")
  case True
  with assms have "w' = w" by (simp add: list_after_user_def)
  then show ?thesis by simp
next
  case False
  obtain res1 w1 where a: "(if r = Author \<or> r = AllRoles then inbox_query tok up ''AUTHOR'' [] w else (Inr [], w)) = (res1, w1)"
    by (cases "(if r = Author \<or> r = AllRoles then inbox_query tok up ''AUTHOR'' [] w else (Inr [], w))")
  have s1: "\<exists>qs. sent w1 = sent w @ qs
      \<and> url ` set qs \<subseteq> (\<lambda>x. BITBUCKET_BASE_URL @ inbox_path x) ` set (effective_roles r)"
  proof (cases "r = Author \<or> r = AllRoles")
    case True
    with a have "sent w1 = sent w @ [api_request tok (inbox_path ''AUTHOR'') None]"
      by (auto dest: inbox_query_sent)
    with True show ?thesis
      by (intro exI [of _ "[api_request tok (inbox_path ''AUTHOR'') None]"])
         (auto simp: api_request_def effective_roles_simps)
  next
    case False
    with a show ?thesis by simp
  qed
  show ?thesis
  proof (cases res1)
    case (Inl e)
    with assms a False have "w' = w1" by (simp add: list_after_user_def)
    with s1 show ?thesis by simp
  next
    case (Inr prs1)
    obtain res2 w2 where b: "(if r = Reviewer \<or> r = AllRoles then inbox_query tok up ''REVIEWER'' prs1 w1
                   else (Inr prs1, w1)) = (res2, w2)"
      by (cases "(if r = Reviewer \<or> r = AllRoles then inbox_query tok up ''REVIEWER'' prs1 w1
                   else (Inr prs1, w1))")
    have w': "w' = w2"
      using assms a b False Inr by (cases res2) (simp_all add: list_after_user_def)
    from s1 obtain qs where qs: "sent w1 = sent w @ qs"
      "url ` set qs \<subseteq> (\<lambda>x. BITBUCKET_BASE_URL @ inbox_path x) ` set (effective_roles r)" by blast
    show ?thesis
    proof (cases "r = Reviewer \<or> r = AllRoles")
      case True
      with b have "sent w2 = sent w1 @ [api_request tok (inbox_path ''REVIEWER'') None]"
        by (auto dest: inbox_query_sent)
      with True qs w' show ?thesis
        by (intro exI [of _ "qs @ [api_request tok (inbox_path ''REVIEWER'') None]"])
           (auto simp: api_request_def effective_roles_simps)
    next
      case False
      with b qs w' show ?thesis by auto
    qed
  qed
qed

lemma bitbucketlistprs_handler_sent:
  assumes "bitbucketlistprs_handler tok up r w = (res, w')"
  shows "\<exists>qs. sent w' = sent w @ qs \<and> url ` set qs \<subseteq> listprs_urls BITBUCKET_BASE_URL r"
proof -
  let ?q1 = "api_request tok whoami_path None"
  obtain res1 w1 where g1: "bitbucketApiRequest tok up whoami_path None w = (res1, w1)"
    by (cases "bitbucketApiRequest tok up whoami_path None w")
  then have s1: "sent w1 = sent w @ [?q1]" by (rule bitbucketApiRequest_sent)
  have u1: "url ?q1 \<in> listprs_urls BITBUCKET_BASE_URL r"
    by (simp add: api_request_def listprs_urls_def)
  have later: "\<exists>qs. sent w' = sent w @ qs \<and> url ` set qs \<subseteq> listprs_urls BITBUCKET_BASE_URL r"
    if "list_after_user tok up r user w2 = (res, w')" and "sent w2 = sent w @ qs2"
      and "url ` set qs2 \<subseteq> listprs_urls BITBUCKET_BASE_URL r" for user w2 qs2
  proof -
    from list_after_user_sent [OF that(1)] obtain qs where
      "sent w' = sent w2 @ qs" "url ` set qs \<subseteq> (\<lambda>x. BITBUCKET_BASE_URL @ inbox_path x) ` set (effective_roles r)"
      by blast
    with that(2,3) show ?thesis
      by (intro exI [of _ "qs2 @ qs"]) (auto simp: listprs_urls_def)
  qed
  show ?thesis
  proof (cases res1)
    case (ErrorResult st m)
    with assms g1 have "w' = w1" by (simp add: bitbucketlistprs_handler_def)
    with s1 u1 show ?thesis by (intro exI [of _ "[?q1]"]) simp
  next
    case (DataResult username)
    show ?thesis
    proof (cases "truthy username")
      case False
      with assms g1 DataResult have "list_after_user tok up r JUndefined w1 = (res, w')"
        by (simp add: bitbucketlistprs_handler_def)
      with later [of JUndefined w1 "[?q1]"] s1 u1 show ?thesis by simp
    next
      case True
      let ?q2 = "api_request tok (users_path username) None"
      obtain res2 w2 where g2: "bitbucketApiRequest tok up (users_path username) None w1 = (res2, w2)"
        by (cases "bitbucketApiRequest tok up (users_path username) None w1")
      then have s2: "sent w2 = sent w @ [?q1, ?q2]" using s1 by (auto dest: bitbucketApiRequest_sent)
      have u2: "url ?q2 \<in> listprs_urls BITBUCKET_BASE_URL r"
        by (simp add: api_request_def listprs_urls_def)
      show ?thesis
      proof (cases res2)
        case (ErrorResult st m)
        with assms g1 g2 DataResult True have "w' = w2" by (simp add: bitbucketlistprs_handler_def)
        with s2 u1 u2 show ?thesis by (intro exI [of _ "[?q1, ?q2]"]) simp
      next
        case d: (DataResult d)
        show ?thesis
        proof (cases "first_user d")
          case (Inl e)
          with assms g1 g2 DataResult True d have "w' = w2" by (simp add: bitbucketlistprs_handler_def)
          with s2 u1 u2 show ?thesis by (intro exI [of _ "[?q1, ?q2]"]) simp
        next
          case (Inr user)
          with assms g1 g2 DataResult True d have "list_after_user tok up r user w2 = (res, w')"
            by (simp add: bitbucketlistprs_handler_def)
          with later [of user w2 "[?q1, ?q2]"] s2 u1 u2 show ?thesis by simp
        qed
      qed
    qed
  qed
qed

lemma reviewer_url_not_for_author:
  "base @ inbox_path ''REVIEWER'' \<notin> listprs_urls base Author"
  by (auto simp: listprs_urls_def effective_roles_simps whoami_path_def users_path_def inbox_path_def)

lemma author_url_not_for_reviewer:
  "base @ inbox_path ''AUTHOR'' \<notin> listprs_urls base Reviewer"
  by (auto simp: listprs_urls_def effective_roles_simps whoami_path_def users_path_def inbox_path_def)

lemma registerApiTool_world: "snd (registerApiTool logic args w) = snd (logic args w)"
  by (cases "logic args w"; cases "fst (logic args w)") (auto simp: registerApiTool_def)

text \<open>
  Claim C6. In both variants, listing with the role \<open>author\<close> sends no request to the inbox
  address of the role \<open>REVIEWER\<close>, and listing with the role \<open>reviewer\<close> sends none to the
  inbox address of the role \<open>AUTHOR\<close>, whatever the host answers. So both addresses are
  asked in one call only for the role \<open>all\<close>.
\<close>

theorem role_filter:
  "BB_BASE_URL cfg @ ''/rest/api/latest/inbox/pull-requests?state=OPEN&role=REVIEWER''
     \<notin> url ` set (drop (length (sent w)) (sent (snd (call_tool cfg up dp (Bitbucketlistprs Author) w))))
   \<and> BB_BASE_URL cfg @ ''/rest/api/latest/inbox/pull-requests?state=OPEN&role=AUTHOR''
     \<notin> url ` set (drop (length (sent w)) (sent (snd (call_tool cfg up dp (Bitbucketlistprs Reviewer) w))))
   \<and> ''https://git.namecheap.net/rest/api/latest/inbox/pull-requests?state=OPEN&role=REVIEWER''
     \<notin> url ` set (drop (length (sent w)) (sent (snd (bitbucketlistprs_handler tok up Author w))))
   \<and> ''https://git.namecheap.net/rest/api/latest/inbox/pull-requests?state=OPEN&role=AUTHOR''
     \<notin> url ` set (drop (length (sent w)) (sent (snd (bitbucketlistprs_handler tok up Reviewer w))))"
proof -
  have v2: "url ` set (drop (length (sent w)) (sent (snd (call_tool cfg up dp (Bitbucketlistprs r) w))))
              \<subseteq> listprs_urls (BB_BASE_URL cfg) r" for r
  proof -
    obtain res w' where l: "bitbucketlistprs_logic cfg up r w = (res, w')"
      by (cases "bitbucketlistprs_logic cfg up r w")
    from bitbucketlistprs_logic_run [OF l] obtain qs where
      "sent w' = sent w @ qs" "url ` set qs \<subseteq> listprs_urls (BB_BASE_URL cfg) r" by blast
    with l show ?thesis by (simp add: call_tool_def registerApiTool_world)
  qed
  have v1: "url ` set (drop (length (sent w)) (sent (snd (bitbucketlistprs_handler tok up r w))))
              \<subseteq> listprs_urls BITBUCKET_BASE_URL r" for r
  proof -
    obtain res w' where l: "bitbucketlistprs_handler tok up r w = (res, w')"
      by (cases "bitbucketlistprs_handler tok up r w")
    from bitbucketlistprs_handler_sent [OF l] obtain qs where
      "sent w' = sent w @ qs" "url ` set qs \<subseteq> listprs_urls BITBUCKET_BASE_URL r" by blast
    with l show ?thesis by simp
  qed
  from v2 [of Author] reviewer_url_not_for_author [of "BB_BASE_URL cfg"]
  have 1: "BB_BASE_URL cfg @ ''/rest/api/latest/inbox/pull-requests?state=OPEN&role=REVIEWER''
     \<notin> url ` set (drop (length (sent w)) (sent (snd (call_tool cfg up dp (Bitbucketlistprs Author) w))))"
    by (auto simp: inbox_path_def)
  from v2 [of Reviewer] author_url_not_for_reviewer [of "BB_BASE_URL cfg"]
  have 2: "BB_BASE_URL cfg @ ''/rest/api/latest/inbox/pull-requests?state=OPEN&role=AUTHOR''
     \<notin> url ` set (drop (length (sent w)) (sent (snd (call_tool cfg up dp (Bitbucketlistprs Reviewer) w))))"
    by (auto simp: inbox_path_def)
  from v1 [of Author] reviewer_url_not_for_author [of BITBUCKET_BASE_URL]
  have 3: "''https://git.namecheap.net/rest/api/latest/inbox/pull-requests?state=OPEN&role=REVIEWER''
     \<notin> url ` set (drop (length (sent w)) (sent (snd (bitbucketlistprs_handler tok up Author w))))"
    by (auto simp: inbox_path_def BITBUCKET_BASE_URL_def)
  from v1 [of Reviewer] author_url_not_for_reviewer [of BITBUCKET_BASE_URL]
  have 4: "''https://git.namecheap.net/rest/api/latest/inbox/pull-requests?state=OPEN&role=AUTHOR''
     \<notin> url ` set (drop (length (sent w)) (sent (snd (bitbucketlistprs_handler tok up Reviewer w))))"
    by (auto simp: inbox_path_def BITBUCKET_BASE_URL_def)
  from 1 2 3 4 show ?thesis by blast
qed

theorem role_filter_witness:
  "''https://bitbucket.example/rest/api/latest/inbox/pull-requests?state=OPEN&role=REVIEWER''
     \<notin> url ` set (sent (snd (call_tool cfg0
          (scripted [Resolved (JStr ''jdoe''), Resolved users_jdoe, Resolved (inbox_page [])])
          no_dates (Bitbucketlistprs Author) w0)))
   \<and> map url (sent (snd (call_tool cfg0
          (scripted [Resolved (JStr ''jdoe''), Resolved users_jdoe, Resolved (inbox_page []),
                     Resolved (inbox_page [])])
          no_dates (Bitbucketlistprs AllRoles) w0)))
      = [''https://bitbucket.example/plugins/servlet/applinks/whoami'',
         ''https://bitbucket.example/rest/api/latest/users?filter=jdoe'',
         ''https://bitbucket.example/rest/api/latest/inbox/pull-requests?state=OPEN&role=AUTHOR'',
         ''https://bitbucket.example/rest/api/latest/inbox/pull-requests?state=OPEN&role=REVIEWER'']"
proof -
  have "map url (sent (snd (call_tool cfg0
          (scripted [Resolved (JStr ''jdoe''), Resolved users_jdoe, Resolved (inbox_page []),
                     Resolved (inbox_page [])])
          no_dates (Bitbucketlistprs AllRoles) w0)))
      = [''https://bitbucket.example/plugins/servlet/applinks/whoami'',
         ''https://bitbucket.example/rest/api/latest/users?filter=jdoe'',
         ''https://bitbucket.example/rest/api/latest/inbox/pull-requests?state=OPEN&role=AUTHOR'',
         ''https://bitbucket.example/rest/api/latest/inbox/pull-requests?state=OPEN&role=REVIEWER'']"
    by code_simp
  with role_filter [of cfg0 w0
         "scripted [Resolved (JStr ''jdoe''), Resolved users_jdoe, Resolved (inbox_page [])]" no_dates]
  show ?thesis by (simp add: w0_def cfg0_def)
qed

section \<open>Errors of the host while listing\<close>



lemma format_string: "format (JStr s) = text_output (JStr s)"
  by (simp add: format_def is_string_def)

lemma registerApiTool_Inl:
  "logic args w = (Inl e, w') \<Longrightarrow>
   registerApiTool logic args w = (text_output (JStr (''Unhandled error: '' @ message_or_error e)), w')"
  by (simp add: registerApiTool_def format_string)

lemma registerApiTool_Inr:
  "logic args w = (Inr v, w') \<Longrightarrow> registerApiTool logic args w = (format v, w')"
  by (simp add: registerApiTool_def)








section \<open>A user that cannot be resolved\<close>

lemma first_user_no_match:
  assumes "js_get d ''values'' = Inr (JArr vs)"
    and "case vs of [] \<Rightarrow> True | u # rest \<Rightarrow> \<not> truthy (opt_get u ''slug'')"
  shows "\<exists>user. first_user d = Inr user \<and> (\<not> truthy user \<or> \<not> truthy (js_prop user ''slug''))"
proof (cases vs)
  case Nil
  with assms(1) show ?thesis
    by (simp add: first_user_def ebind_def truthy_def js_get_def nullish_def js_prop_def
        greater_than_zero_def to_number_def)
next
  case (Cons u rest)
  with assms(2) have "\<not> truthy (opt_get u ''slug'')" by simp
  then have "\<not> truthy u \<or> \<not> truthy (js_prop u ''slug'')"
    by (auto simp: opt_get_def nullish_def truthy_def split: if_splits)
  moreover from Cons assms(1) have "first_user d = Inr u"
    by (simp add: first_user_def ebind_def truthy_def js_get_def nullish_def js_prop_def
        greater_than_zero_def to_number_def js_first_def)
  ultimately show ?thesis by simp
qed

lemma logic_user_no_match:
  assumes "js_get d ''values'' = Inr (JArr vs)"
    and "case vs of [] \<Rightarrow> True | u # rest \<Rightarrow> \<not> truthy (opt_get u ''slug'')"
  shows "\<exists>user. ebind (js_get d ''values'') js_first = Inr user \<and> \<not> truthy (opt_get user ''slug'')"
  using assms
  by (cases vs) (simp_all add: ebind_def js_first_def nullish_def opt_get_def truthy_def)

text \<open>
  Claim C7, as amended. Let the user search resolve with a body whose \<open>values\<close> is an array
  that is empty or whose first entry has no truthy \<open>slug\<close>. With the fixed base URL (and a
  truthy user name from the identity lookup) the handler returns the plain text
  \<open>Could not determine the current user.\<close> after these two requests. With the registration
  wrapper the logic throws, and the tool answers with the text
  \<open>Unhandled error: Failed to resolve current user slug\<close> after the same two requests.
\<close>

theorem unresolved_user_message:
  "(\<forall>username d vs.
      up (sent w) (api_request tok whoami_path None) = Resolved username \<and> truthy username
      \<and> up (sent w @ [api_request tok whoami_path None]) (api_request tok (users_path username) None)
          = Resolved d
      \<and> js_get d ''values'' = Inr (JArr vs)
      \<and> (case vs of [] \<Rightarrow> True | u # rest \<Rightarrow> \<not> truthy (opt_get u ''slug''))
      \<longrightarrow> bitbucketlistprs_handler tok up r w
            = (Inr (text_output (JStr ''Could not determine the current user.'')),
               w\<lparr>sent := sent w @ [api_request tok whoami_path None,
                                     api_request tok (users_path username) None]\<rparr>))
   \<and> (\<forall>username d vs.
      up (sent w) (get_request cfg whoami_path no_config) = Resolved username
      \<and> up (sent w @ [get_request cfg whoami_path no_config])
            (get_request cfg (users_path username) no_config) = Resolved d
      \<and> js_get d ''values'' = Inr (JArr vs)
      \<and> (case vs of [] \<Rightarrow> True | u # rest \<Rightarrow> \<not> truthy (opt_get u ''slug''))
      \<longrightarrow> call_tool cfg up dp (Bitbucketlistprs r) w
            = (text_output (JStr ''Unhandled error: Failed to resolve current user slug''),
               w\<lparr>sent := sent w @ [get_request cfg whoami_path no_config,
                                     get_request cfg (users_path username) no_config]\<rparr>))"
proof (intro conjI allI impI)
  fix username d vs
  assume a: "up (sent w) (api_request tok whoami_path None) = Resolved username \<and> truthy username
      \<and> up (sent w @ [api_request tok whoami_path None]) (api_request tok (users_path username) None)
          = Resolved d
      \<and> js_get d ''values'' = Inr (JArr vs)
      \<and> (case vs of [] \<Rightarrow> True | u # rest \<Rightarrow> \<not> truthy (opt_get u ''slug''))"
  then obtain user where u: "first_user d = Inr user"
    "\<not> truthy user \<or> \<not> truthy (js_prop user ''slug'')"
    using first_user_no_match [of d vs] by blast
  let ?w1 = "w\<lparr>sent := sent w @ [api_request tok whoami_path None]\<rparr>"
  from a have "bitbucketApiRequest tok up (users_path username) None ?w1
      = (DataResult d, ?w1\<lparr>sent := sent ?w1 @ [api_request tok (users_path username) None]\<rparr>)"
    by (intro bitbucketApiRequest_Resolved) simp
  with a u show "bitbucketlistprs_handler tok up r w
            = (Inr (text_output (JStr ''Could not determine the current user.'')),
               w\<lparr>sent := sent w @ [api_request tok whoami_path None,
                                     api_request tok (users_path username) None]\<rparr>)"
    by (simp add: bitbucketlistprs_handler_def bitbucketApiRequest_Resolved list_after_user_no_user
        could_not_determine_def)
next
  fix username d vs
  assume a: "up (sent w) (get_request cfg whoami_path no_config) = Resolved username
      \<and> up (sent w @ [get_request cfg whoami_path no_config])
            (get_request cfg (users_path username) no_config) = Resolved d
      \<and> js_get d ''values'' = Inr (JArr vs)
      \<and> (case vs of [] \<Rightarrow> True | u # rest \<Rightarrow> \<not> truthy (opt_get u ''slug''))"
  then obtain user where u: "ebind (js_get d ''values'') js_first = Inr user"
    "\<not> truthy (opt_get user ''slug'')"
    using logic_user_no_match [of d vs] by blast
  let ?w1 = "w\<lparr>sent := sent w @ [get_request cfg whoami_path no_config]\<rparr>"
  let ?w2 = "w\<lparr>sent := sent w @ [get_request cfg whoami_path no_config,
                                     get_request cfg (users_path username) no_config]\<rparr>"
  from a have "bitbucketGet cfg up (users_path username) no_config ?w1
      = (DataResult d, ?w1\<lparr>sent := sent ?w1 @ [get_request cfg (users_path username) no_config]\<rparr>)"
    by (intro bitbucketGet_Resolved) simp
  with a u have "bitbucketlistprs_logic cfg up r w
      = (Inl (new_Error (JStr ''Failed to resolve current user slug'')), ?w2)"
    by (simp add: bitbucketlistprs_logic_def bitbucketGet_Resolved getOrThrow_def ebind_def)
  then show "call_tool cfg up dp (Bitbucketlistprs r) w
            = (text_output (JStr ''Unhandled error: Failed to resolve current user slug''), ?w2)"
    by (simp add: call_tool_def registerApiTool_Inl message_or_error_def new_Error_def)
qed

theorem unresolved_user_message_witness:
  "bitbucketlistprs_handler None (scripted [Resolved (JStr ''jdoe''), Resolved (JObj [(''values'', JArr [])])])
      AllRoles w0
     = (Inr (text_output (JStr ''Could not determine the current user.'')),
        w0\<lparr>sent := sent w0 @ [api_request None whoami_path None,
                                api_request None (users_path (JStr ''jdoe'')) None]\<rparr>)
   \<and> call_tool cfg0
        (scripted [Resolved (JStr ''jdoe''),
                   Resolved (JObj [(''values'', JArr [JObj [(''displayName'', JStr ''J. Doe'')]])])])
        no_dates (Bitbucketlistprs AllRoles) w0
     = (text_output (JStr ''Unhandled error: Failed to resolve current user slug''),
        w0\<lparr>sent := sent w0 @ [get_request cfg0 whoami_path no_config,
                                get_request cfg0 (users_path (JStr ''jdoe'')) no_config]\<rparr>)"
  using unresolved_user_message [of "scripted [Resolved (JStr ''jdoe''), Resolved (JObj [(''values'', JArr [])])]"
          w0 None AllRoles]
        unresolved_user_message [of "scripted [Resolved (JStr ''jdoe''),
                   Resolved (JObj [(''values'', JArr [JObj [(''displayName'', JStr ''J. Doe'')]])])]"
          w0 _ _ cfg0 no_dates]
  by (simp add: scripted_def w0_def truthy_def js_get_def nullish_def js_prop_def opt_get_def)

text \<open>
  Claim C7 as stated fails with the registration wrapper: when the user search finds nobody,
  the logic ends with a thrown \<open>Error\<close> and the answer is an \<open>Unhandled error\<close> text.
\<close>

theorem unresolved_user_counterexample:
  "fst (call_tool cfg0 (scripted [Resolved (JStr ''jdoe''), Resolved (JObj [(''values'', JArr [])])])
          no_dates (Bitbucketlistprs AllRoles) w0)
     = text_output (JStr ''Unhandled error: Failed to resolve current user slug'')
   \<and> fst (bitbucketlistprs_logic cfg0
          (scripted [Resolved (JStr ''jdoe''), Resolved (JObj [(''values'', JArr [])])]) AllRoles w0)
     = Inl (Exn ''Error'' ''Failed to resolve current user slug'')"
  by code_simp

section \<open>The answer of a tool\<close>

lemma call_tool_registered:
  "call_tool cfg up dp c w = registerApiTool (tool_logic cfg up dp) c w"
  by (cases c) (simp_all add: call_tool_def tool_logic_def registerApiTool_def)

lemma stringify_defined:
  "v \<noteq> JUndefined \<Longrightarrow> (\<And>n. v \<noteq> JFun n) \<Longrightarrow> \<exists>s. stringify ind v = Some s"
  by (cases v) (auto simp: Let_def)

lemma format_defined:
  assumes "v \<noteq> JUndefined" and "\<And>n. v \<noteq> JFun n"
  shows "\<exists>t. format v = text_output (JStr t)"
proof (cases "is_string v")
  case True
  then obtain t where "v = JStr t" by (cases v) (simp_all add: is_string_def)
  with True show ?thesis by (auto simp: format_def)
next
  case False
  from stringify_defined [OF assms, of "[]"] obtain s where "stringify [] v = Some s" by blast
  with False show ?thesis by (auto simp: format_def JSON_stringify_def)
qed

lemma bitbucketlistprs_logic_array:
  assumes "bitbucketlistprs_logic cfg up r w = (Inr v, w')"
  shows "\<exists>ps. v = JArr ps"
proof -
  have *: "\<exists>ps. v = JArr ps"
    if "ebind m (\<lambda>allPrs. ebind (uniquePrs allPrs) (\<lambda>us.
          ebind (emap project_list_item us) (\<lambda>ps. Inr (JArr ps)))) = Inr v" for m :: "jsval list js"
    using that by (auto dest!: ebind_Inr)
  obtain res1 w1 where g1: "bitbucketGet cfg up whoami_path no_config w = (res1, w1)"
    by (cases "bitbucketGet cfg up whoami_path no_config w")
  show ?thesis
  proof (cases "getOrThrow res1")
    case (Inl e)
    with assms g1 show ?thesis by (simp add: bitbucketlistprs_logic_def)
  next
    case (Inr username)
    obtain res2 w2 where g2: "bitbucketGet cfg up (users_path username) no_config w1 = (res2, w2)"
      by (cases "bitbucketGet cfg up (users_path username) no_config w1")
    show ?thesis
    proof (cases "ebind (getOrThrow res2) (\<lambda>userResp. ebind (js_get userResp ''values'') js_first)")
      case (Inl e)
      with assms g1 g2 Inr show ?thesis by (simp add: bitbucketlistprs_logic_def)
    next
      case user: (Inr user)
      show ?thesis
      proof (cases "truthy (opt_get user ''slug'')")
        case False
        with assms g1 g2 Inr user show ?thesis by (simp add: bitbucketlistprs_logic_def)
      next
        case True
        obtain res3 w3 where g3: "fetch_roles cfg up (effective_roles r) [] w2 = (res3, w3)"
          by (cases "fetch_roles cfg up (effective_roles r) [] w2")
        with assms g1 g2 Inr user True
        have "ebind res3 (\<lambda>allPrs. ebind (uniquePrs allPrs) (\<lambda>us.
                ebind (emap project_list_item us) (\<lambda>ps. Inr (JArr ps)))) = Inr v"
          by (cases res3) (simp_all add: bitbucketlistprs_logic_def ebind_def)
        then show ?thesis by (rule *)
      qed
    qed
  qed
qed

lemma project_pr_info_object:
  "project_pr_info dp d = Inr v \<Longrightarrow> \<exists>kvs. v = JObj kvs"
  unfolding project_pr_info_def pr_info_object_def
  by (auto dest!: ebind_Inr)

lemma bitbucketgetpr_logic_object:
  "bitbucketgetpr_logic cfg up dp a w = (Inr v, w') \<Longrightarrow> \<exists>kvs. v = JObj kvs"
  unfolding bitbucketgetpr_logic_def
  by (auto split: prod.splits dest!: ebind_Inr project_pr_info_object)

lemma bitbucketgetdiff_logic_body:
  "bitbucketgetdiff_logic cfg up a w = (Inr v, w') \<Longrightarrow> \<exists>h q. up h q = Resolved v"
  unfolding bitbucketgetdiff_logic_def
  by (auto split: prod.splits dest!: getOrThrow_Inr bitbucketGet_run)

lemma tool_logic_defined:
  assumes "\<forall>h q d. up h q = Resolved d \<longrightarrow> d \<noteq> JUndefined \<and> (\<forall>n. d \<noteq> JFun n)"
    and "tool_logic cfg up dp c w = (Inr v, w')"
  shows "v \<noteq> JUndefined \<and> (\<forall>n. v \<noteq> JFun n)"
proof (cases c)
  case (Bitbucketlistprs r)
  with assms(2) show ?thesis by (auto simp: tool_logic_def dest: bitbucketlistprs_logic_array)
next
  case (Bitbucketgetpr k s n)
  with assms(2) show ?thesis by (auto simp: tool_logic_def dest: bitbucketgetpr_logic_object)
next
  case (Bitbucketgetdiff k s n)
  with assms(2) have "\<exists>h q. up h q = Resolved v"
    by (auto simp: tool_logic_def dest: bitbucketgetdiff_logic_body)
  with assms(1) show ?thesis by blast
qed

text \<open>
  Claim C1, as amended. With the registration wrapper, and a host whose bodies are JSON
  values or text, every call of each of the three tools, with any arguments and in any
  state, answers with one block of type \<open>text\<close> whose text is a string. When the logic of
  the tool throws, the text is \<open>Unhandled error:\<close> followed by the message of the exception,
  or by its name when the message is empty, and nothing leaves the wrapper.
\<close>

theorem registered_tool_envelope:
  assumes "\<forall>h q d. up h q = Resolved d \<longrightarrow> d \<noteq> JUndefined \<and> (\<forall>n. d \<noteq> JFun n)"
  shows "(\<exists>t. fst (call_tool cfg up dp c w) = text_output (JStr t))
       \<and> (\<forall>e w'. tool_logic cfg up dp c w = (Inl e, w') \<longrightarrow>
             call_tool cfg up dp c w
               = (text_output (JStr (''Unhandled error: '' @
                    (if exn_message e = [] then exn_name e else exn_message e))), w'))"
proof (intro conjI allI impI)
  show "\<exists>t. fst (call_tool cfg up dp c w) = text_output (JStr t)"
  proof (cases "tool_logic cfg up dp c w")
    case (Pair res w')
    show ?thesis
    proof (cases res)
      case (Inl e)
      with Pair show ?thesis
        by (auto simp: call_tool_registered registerApiTool_Inl)
    next
      case (Inr v)
      with Pair assms have "v \<noteq> JUndefined \<and> (\<forall>n. v \<noteq> JFun n)"
        by (intro tool_logic_defined [of up cfg dp c w v w']) simp_all
      then obtain t where "format v = text_output (JStr t)"
        using format_defined [of v] by blast
      with Pair Inr show ?thesis
        by (auto simp: call_tool_registered registerApiTool_Inr)
    qed
  qed
next
  fix e w'
  assume "tool_logic cfg up dp c w = (Inl e, w')"
  then show "call_tool cfg up dp c w
               = (text_output (JStr (''Unhandled error: '' @
                    (if exn_message e = [] then exn_name e else exn_message e))), w')"
    by (simp add: call_tool_registered registerApiTool_Inl message_or_error_def)
qed

theorem registered_tool_envelope_witness:
  "fst (tool_logic cfg0 (scripted [Resolved (JObj [(''id'', JNum 7), (''title'', JStr ''Fix'')])])
          no_dates (Bitbucketgetpr ''PRJ'' ''repo'' 7) w0)
      = Inl (Exn ''RangeError'' ''Invalid time value'')
   \<and> fst (call_tool cfg0 (scripted [Resolved (JObj [(''id'', JNum 7), (''title'', JStr ''Fix'')])])
          no_dates (Bitbucketgetpr ''PRJ'' ''repo'' 7) w0)
      = text_output (JStr ''Unhandled error: Invalid time value'')"
proof -
  let ?up = "scripted [Resolved (JObj [(''id'', JNum 7), (''title'', JStr ''Fix'')])]"
  have host: "\<forall>h q d. ?up h q = Resolved d \<longrightarrow> d \<noteq> JUndefined \<and> (\<forall>n. d \<noteq> JFun n)"
    by (auto simp: scripted_def split: if_splits)
  have l: "tool_logic cfg0 ?up no_dates (Bitbucketgetpr ''PRJ'' ''repo'' 7) w0
             = (Inl (Exn ''RangeError'' ''Invalid time value''),
                snd (tool_logic cfg0 ?up no_dates (Bitbucketgetpr ''PRJ'' ''repo'' 7) w0))"
    by code_simp
  from registered_tool_envelope [OF host, of cfg0 no_dates "Bitbucketgetpr ''PRJ'' ''repo'' 7" w0,
         THEN conjunct2, rule_format, OF l]
  have "fst (call_tool cfg0 ?up no_dates (Bitbucketgetpr ''PRJ'' ''repo'' 7) w0)
      = text_output (JStr ''Unhandled error: Invalid time value'')"
    by simp
  moreover from l
  have "fst (tool_logic cfg0 ?up no_dates (Bitbucketgetpr ''PRJ'' ''repo'' 7) w0)
      = Inl (Exn ''RangeError'' ''Invalid time value'')"
    by (rule arg_cong [where f = fst, THEN trans]) simp
  ultimately show ?thesis by blast
qed

text \<open>
  Claim C1 as stated fails with the fixed base URL, where the handlers are registered as
  they are, with nothing around them that catches: on a pull request without dates the
  handler of \<open>bitbucketgetpr\<close> ends with a \<open>RangeError\<close>, and on an inbox item without
  \<open>fromRef\<close> the handler of \<open>bitbucketlistprs\<close> ends with a \<open>TypeError\<close>.
\<close>

theorem handler_throws_counterexample:
  "fst (bitbucketgetpr_handler None (scripted [Resolved (JObj [(''id'', JNum 7), (''title'', JStr ''Fix'')])])
          no_dates (''PRJ'', ''repo'', 7) w0)
     = Inl (Exn ''RangeError'' ''Invalid time value'')
   \<and> fst (bitbucketlistprs_handler None
          (scripted [Resolved (JStr ''jdoe''), Resolved users_jdoe,
                     Resolved (inbox_page [JObj [(''id'', JNum 7), (''title'', JStr ''Fix'')]])])
          Author w0)
     = Inl (Exn ''TypeError''
         (''Cannot read properties of undefined (reading '' @ [CHR 0x27] @ ''repository'' @ [CHR 0x27] @ '')''))"
  by code_simp

section \<open>The addresses of the requests\<close>

lemma bitbucketGet_sent:
  "sent (snd (bitbucketGet cfg up path conf w)) = sent w @ [get_request cfg path conf]"
  by (cases "bitbucketGet cfg up path conf w") (auto dest: bitbucketGet_run)

lemma bitbucketApiRequest_sent_snd:
  "sent (snd (bitbucketApiRequest tok up path conf w)) = sent w @ [api_request tok path conf]"
  by (cases "bitbucketApiRequest tok up path conf w") (auto dest: bitbucketApiRequest_sent)

lemma getpr_tool_sent:
  "sent (snd (call_tool cfg up dp (Bitbucketgetpr k s n) w))
     = sent w @ [get_request cfg (pr_path k s n) no_config]"
  using bitbucketGet_sent [of cfg up "pr_path k s n" no_config w]
  by (auto simp: call_tool_def registerApiTool_world bitbucketgetpr_logic_def split: prod.splits)

lemma getdiff_tool_sent:
  "sent (snd (call_tool cfg up dp (Bitbucketgetdiff k s n) w))
     = sent w @ [get_request cfg (diff_path k s n) diff_config]"
  using bitbucketGet_sent [of cfg up "diff_path k s n" diff_config w]
  by (auto simp: call_tool_def registerApiTool_world bitbucketgetdiff_logic_def split: prod.splits)

lemma getpr_handler_sent:
  "sent (snd (bitbucketgetpr_handler tok up dp (k, s, n) w))
     = sent w @ [api_request tok (pr_path k s n) None]"
  using bitbucketApiRequest_sent_snd [of tok up "pr_path k s n" None w]
  by (auto simp: bitbucketgetpr_handler_def split: prod.splits api_result.splits)

lemma getdiff_handler_sent:
  "sent (snd (bitbucketgetdiff_handler tok up (k, s, n) w))
     = sent w @ [api_request tok (diff_path k s n) (Some diff_config)]"
  using bitbucketApiRequest_sent_snd [of tok up "diff_path k s n" "Some diff_config" w]
  by (auto simp: bitbucketgetdiff_handler_def split: prod.splits api_result.splits)

lemma list_tool_first_requests:
  assumes "up (sent w) (get_request cfg whoami_path no_config) = Resolved username"
  shows "\<exists>qs. sent (snd (call_tool cfg up dp (Bitbucketlistprs r) w))
           = sent w @ [get_request cfg whoami_path no_config,
                       get_request cfg (users_path username) no_config] @ qs"
proof -
  let ?q1 = "get_request cfg whoami_path no_config"
  let ?q2 = "get_request cfg (users_path username) no_config"
  let ?w1 = "w\<lparr>sent := sent w @ [?q1]\<rparr>"
  have g1: "bitbucketGet cfg up whoami_path no_config w = (DataResult username, ?w1)"
    using assms by (rule bitbucketGet_Resolved)
  obtain res2 w2 where g2: "bitbucketGet cfg up (users_path username) no_config ?w1 = (res2, w2)"
    by (cases "bitbucketGet cfg up (users_path username) no_config ?w1")
  from bitbucketGet_run [OF g2] have s2: "sent w2 = sent w @ [?q1, ?q2]" by simp
  let ?user = "ebind (getOrThrow res2) (\<lambda>userResp. ebind (js_get userResp ''values'') js_first)"
  have "\<exists>qs. sent (snd (bitbucketlistprs_logic cfg up r w)) = sent w @ [?q1, ?q2] @ qs"
  proof (cases ?user)
    case (Inl e)
    with g1 g2 s2 show ?thesis by (simp add: bitbucketlistprs_logic_def getOrThrow_def)
  next
    case (Inr user)
    show ?thesis
    proof (cases "truthy (opt_get user ''slug'')")
      case False
      with g1 g2 s2 Inr show ?thesis by (simp add: bitbucketlistprs_logic_def getOrThrow_def)
    next
      case True
      obtain res3 w3 where g3: "fetch_roles cfg up (effective_roles r) [] w2 = (res3, w3)"
        by (cases "fetch_roles cfg up (effective_roles r) [] w2")
      from fetch_roles_run [OF g3] obtain qs where "sent w3 = sent w2 @ qs" by blast
      moreover have "snd (bitbucketlistprs_logic cfg up r w) = w3"
        using g1 g2 g3 Inr True by (cases res3) (simp_all add: bitbucketlistprs_logic_def getOrThrow_def)
      ultimately show ?thesis using s2 by simp
    qed
  qed
  then show ?thesis by (simp add: call_tool_def registerApiTool_world)
qed

lemma list_handler_first_requests:
  assumes "up (sent w) (api_request tok whoami_path None) = Resolved username" and "truthy username"
  shows "\<exists>qs. sent (snd (bitbucketlistprs_handler tok up r w))
           = sent w @ [api_request tok whoami_path None,
                       api_request tok (users_path username) None] @ qs"
proof -
  let ?q1 = "api_request tok whoami_path None"
  let ?q2 = "api_request tok (users_path username) None"
  let ?w1 = "w\<lparr>sent := sent w @ [?q1]\<rparr>"
  have g1: "bitbucketApiRequest tok up whoami_path None w = (DataResult username, ?w1)"
    using assms(1) by (rule bitbucketApiRequest_Resolved)
  obtain res2 w2 where g2: "bitbucketApiRequest tok up (users_path username) None ?w1 = (res2, w2)"
    by (cases "bitbucketApiRequest tok up (users_path username) None ?w1")
  from bitbucketApiRequest_sent [OF g2] have s2: "sent w2 = sent w @ [?q1, ?q2]" by simp
  show ?thesis
  proof (cases res2)
    case (ErrorResult st m)
    with g1 g2 s2 assms(2) show ?thesis by (simp add: bitbucketlistprs_handler_def)
  next
    case (DataResult d)
    show ?thesis
    proof (cases "first_user d")
      case (Inl e)
      with g1 g2 s2 assms(2) DataResult show ?thesis by (simp add: bitbucketlistprs_handler_def)
    next
      case (Inr user)
      obtain res3 w3 where g3: "list_after_user tok up r user w2 = (res3, w3)"
        by (cases "list_after_user tok up r user w2")
      from list_after_user_sent [OF g3] obtain qs where "sent w3 = sent w2 @ qs" by blast
      with g1 g2 g3 s2 assms(2) DataResult Inr show ?thesis
        by (simp add: bitbucketlistprs_handler_def)
    qed
  qed
qed

text \<open>
  Claim C9. The address of a request is the base URL followed by the path with the inputs
  written in as they are, nothing encoded and nothing removed, a string as it is and a
  number as its text (\<open>Number::toString\<close>, which a template literal applies): for every
  project key, repository slug and pull-request number, the one request of \<open>bitbucketgetpr\<close>
  and of \<open>bitbucketgetdiff\<close>, in both variants, and for every user name that the identity
  lookup returns, the user search of \<open>bitbucketlistprs\<close>, which is the second request. So an
  input with a URL metacharacter asks for another resource: the slug \<open>s/pull-requests/m?\<close>
  with any number \<open>n\<close> gives the address of pull request \<open>m\<close> of \<open>s\<close>, followed by a query
  string.
\<close>

theorem request_urls_verbatim:
  "map url (drop (length (sent w)) (sent (snd (call_tool cfg up dp (Bitbucketgetpr k s n) w))))
     = [BB_BASE_URL cfg @ ''/rest/api/latest/projects/'' @ k @ ''/repos/'' @ s @ ''/pull-requests/''
          @ Number_toString n]
   \<and> map url (drop (length (sent w)) (sent (snd (call_tool cfg up dp (Bitbucketgetdiff k s n) w))))
     = [BB_BASE_URL cfg @ ''/rest/api/latest/projects/'' @ k @ ''/repos/'' @ s @ ''/pull-requests/''
          @ Number_toString n @ ''.diff'']
   \<and> map url (drop (length (sent w)) (sent (snd (bitbucketgetpr_handler tok up dp (k, s, n) w))))
     = [''https://git.namecheap.net'' @ ''/rest/api/latest/projects/'' @ k @ ''/repos/'' @ s
          @ ''/pull-requests/'' @ Number_toString n]
   \<and> map url (drop (length (sent w)) (sent (snd (bitbucketgetdiff_handler tok up (k, s, n) w))))
     = [''https://git.namecheap.net'' @ ''/rest/api/latest/projects/'' @ k @ ''/repos/'' @ s
          @ ''/pull-requests/'' @ Number_toString n @ ''.diff'']
   \<and> (\<forall>username. up (sent w) (get_request cfg whoami_path no_config) = Resolved username \<longrightarrow>
         map url (take 2 (drop (length (sent w)) (sent (snd (call_tool cfg up dp (Bitbucketlistprs r) w)))))
           = [BB_BASE_URL cfg @ ''/plugins/servlet/applinks/whoami'',
              BB_BASE_URL cfg @ ''/rest/api/latest/users?filter='' @ js_to_string username])
   \<and> (\<forall>username. up (sent w) (api_request tok whoami_path None) = Resolved username \<and> truthy username \<longrightarrow>
         map url (take 2 (drop (length (sent w)) (sent (snd (bitbucketlistprs_handler tok up r w)))))
           = [''https://git.namecheap.net'' @ ''/plugins/servlet/applinks/whoami'',
              ''https://git.namecheap.net'' @ ''/rest/api/latest/users?filter='' @ js_to_string username])
   \<and> pr_path k (s @ ''/pull-requests/'' @ Number_toString m @ ''?'') n
       = pr_path k s m @ ''?/pull-requests/'' @ Number_toString n"
proof (intro conjI allI impI)
  show "map url (drop (length (sent w)) (sent (snd (call_tool cfg up dp (Bitbucketgetpr k s n) w))))
     = [BB_BASE_URL cfg @ ''/rest/api/latest/projects/'' @ k @ ''/repos/'' @ s @ ''/pull-requests/''
          @ Number_toString n]"
    by (simp add: getpr_tool_sent get_request_def pr_path_def)
  show "map url (drop (length (sent w)) (sent (snd (call_tool cfg up dp (Bitbucketgetdiff k s n) w))))
     = [BB_BASE_URL cfg @ ''/rest/api/latest/projects/'' @ k @ ''/repos/'' @ s @ ''/pull-requests/''
          @ Number_toString n @ ''.diff'']"
    by (simp add: getdiff_tool_sent get_request_def pr_path_def diff_path_def)
  show "map url (drop (length (sent w)) (sent (snd (bitbucketgetpr_handler tok up dp (k, s, n) w))))
     = [''https://git.namecheap.net'' @ ''/rest/api/latest/projects/'' @ k @ ''/repos/'' @ s
          @ ''/pull-requests/'' @ Number_toString n]"
    by (simp add: getpr_handler_sent api_request_def pr_path_def BITBUCKET_BASE_URL_def)
  show "map url (drop (length (sent w)) (sent (snd (bitbucketgetdiff_handler tok up (k, s, n) w))))
     = [''https://git.namecheap.net'' @ ''/rest/api/latest/projects/'' @ k @ ''/repos/'' @ s
          @ ''/pull-requests/'' @ Number_toString n @ ''.diff'']"
    by (simp add: getdiff_handler_sent api_request_def pr_path_def diff_path_def BITBUCKET_BASE_URL_def)
  show "pr_path k (s @ ''/pull-requests/'' @ Number_toString m @ ''?'') n
       = pr_path k s m @ ''?/pull-requests/'' @ Number_toString n"
    by (simp add: pr_path_def)
next
  fix username
  assume "up (sent w) (get_request cfg whoami_path no_config) = Resolved username"
  then have "\<exists>qs. sent (snd (call_tool cfg up dp (Bitbucketlistprs r) w))
           = sent w @ [get_request cfg whoami_path no_config,
                       get_request cfg (users_path username) no_config] @ qs"
    by (rule list_tool_first_requests)
  then show "map url (take 2 (drop (length (sent w)) (sent (snd (call_tool cfg up dp (Bitbucketlistprs r) w)))))
           = [BB_BASE_URL cfg @ ''/plugins/servlet/applinks/whoami'',
              BB_BASE_URL cfg @ ''/rest/api/latest/users?filter='' @ js_to_string username]"
    by (auto simp: get_request_def whoami_path_def users_path_def)
next
  fix username
  assume "up (sent w) (api_request tok whoami_path None) = Resolved username \<and> truthy username"
  then have "\<exists>qs. sent (snd (bitbucketlistprs_handler tok up r w))
           = sent w @ [api_request tok whoami_path None,
                       api_request tok (users_path username) None] @ qs"
    by (intro list_handler_first_requests) simp_all
  then show "map url (take 2 (drop (length (sent w)) (sent (snd (bitbucketlistprs_handler tok up r w)))))
           = [''https://git.namecheap.net'' @ ''/plugins/servlet/applinks/whoami'',
              ''https://git.namecheap.net'' @ ''/rest/api/latest/users?filter='' @ js_to_string username]"
    by (auto simp: api_request_def whoami_path_def users_path_def BITBUCKET_BASE_URL_def)
qed

theorem request_urls_verbatim_witness:
  "map url (sent (snd (call_tool cfg0 (scripted []) no_dates
        (Bitbucketgetpr ''PRJ'' ''repo/pull-requests/7?'' 1) w0)))
     = [''https://bitbucket.example/rest/api/latest/projects/PRJ/repos/repo/pull-requests/7?/pull-requests/1'']
   \<and> map url (sent (snd (bitbucketgetdiff_handler None (scripted []) (''A/B'', ''c#d'', 12) w0)))
     = [''https://git.namecheap.net/rest/api/latest/projects/A/B/repos/c#d/pull-requests/12.diff'']
   \<and> map url (sent (snd (call_tool cfg0 (scripted []) no_dates
        (Bitbucketgetpr ''PRJ'' ''repo'' 1000000000000000000000) w0)))
     = [''https://bitbucket.example/rest/api/latest/projects/PRJ/repos/repo/pull-requests/1e+21'']
   \<and> map url (sent (snd (bitbucketgetpr_handler None (scripted []) no_dates (''PRJ'', ''repo'', 3 / 2) w0)))
     = [''https://git.namecheap.net/rest/api/latest/projects/PRJ/repos/repo/pull-requests/1.5'']
   \<and> map url (take 2 (sent (snd (bitbucketlistprs_handler None
        (scripted [Resolved (JStr ''j&permission=ADMIN'')]) AllRoles w0))))
     = [''https://git.namecheap.net/plugins/servlet/applinks/whoami'',
        ''https://git.namecheap.net/rest/api/latest/users?filter=j&permission=ADMIN'']"
proof -
  have d: "Number_toString 1 = ''1''" "Number_toString 12 = ''12''"
    "Number_toString 1000000000000000000000 = ''1e+21''" "Number_toString (3 / 2) = ''1.5''"
    by code_simp+
  have h: "scripted [Resolved (JStr ''j&permission=ADMIN'')] (sent w0) (api_request None whoami_path None)
             = Resolved (JStr ''j&permission=ADMIN'') \<and> truthy (JStr ''j&permission=ADMIN'')"
    by (simp add: scripted_def w0_def truthy_def)
  from request_urls_verbatim [of w0 cfg0 "scripted []" no_dates "''PRJ''" "''repo/pull-requests/7?''" 1]
       request_urls_verbatim [of w0 _ "scripted []" _ "''A/B''" "''c#d''" 12 None]
       request_urls_verbatim [of w0 cfg0 "scripted []" no_dates "''PRJ''" "''repo''" 1000000000000000000000]
       request_urls_verbatim [of w0 _ "scripted []" no_dates "''PRJ''" "''repo''" "3 / 2" None]
       request_urls_verbatim [of w0 _ "scripted [Resolved (JStr ''j&permission=ADMIN'')]" _ _ _ _ None AllRoles,
         THEN conjunct2, THEN conjunct2, THEN conjunct2, THEN conjunct2, THEN conjunct2, THEN conjunct1,
         rule_format, OF h]
  show ?thesis by (simp add: w0_def cfg0_def d)
qed

section \<open>The projections\<close>

lemma emap_total:
  "(\<And>x. x \<in> set xs \<Longrightarrow> f x = Inr (g x)) \<Longrightarrow> emap f xs = Inr (map g xs)"
  by (induction xs) (simp_all add: ebind_def)

lemma opt_map_reviewers:
  assumes "reviewers_ok rs"
  shows "opt_map what rs reviewer_name = Inr (reviewer_names rs)"
proof (cases rs)
  case (JArr xs)
  with assms have "\<And>r. r \<in> set xs \<Longrightarrow> \<not> nullish r"
    by (simp add: reviewers_ok_def list_all_iff)
  then have "emap reviewer_name xs = Inr (map (\<lambda>r. opt_get (js_prop r ''user'') ''displayName'') xs)"
    by (intro emap_total) (simp add: reviewer_name_def js_get_def ebind_def)
  with JArr show ?thesis
    by (simp add: opt_map_def nullish_def reviewer_names_def ebind_def)
qed (use assms in \<open>simp_all add: reviewers_ok_def opt_map_def nullish_def reviewer_names_def\<close>)

lemma iso_1700000000000: "iso_format 1700000000000 = ''2023-11-14T22:13:20.000Z''"
  by code_simp

lemma time_clip_1700000000000: "time_clip 1700000000000 = Some 1700000000000"
  by (simp add: time_clip_def)

lemma pr_info_object_dates:
  assumes "\<not> nullish d"
    and "reviewers_ok (js_prop d ''reviewers'')"
    and "js_prop d ''createdDate'' = JNum 1700000000000"
    and "new_Date dp (js_prop d ''updatedDate'') = Some t"
  shows "pr_info_object what dp d =
     Inr (JObj [(''id'', js_prop d ''id''),
                (''title'', js_prop d ''title''),
                (''description'', js_prop d ''description''),
                (''author'', opt_get (opt_get (js_prop d ''author'') ''user'') ''displayName''),
                (''reviewers'', reviewer_names (js_prop d ''reviewers'')),
                (''state'', js_prop d ''state''),
                (''created_on'', JStr ''2023-11-14T22:13:20.000Z''),
                (''updated_on'', JStr (iso_format t))])"
  using assms
  by (simp add: pr_info_object_def js_get_def ebind_def opt_map_reviewers new_Date_def
      time_clip_1700000000000 toISOString_def iso_1700000000000)

lemma project_pr_info_dates:
  assumes "\<not> nullish d"
    and "reviewers_ok (js_prop d ''reviewers'')"
    and "js_prop d ''createdDate'' = JNum 1700000000000"
    and "new_Date dp (js_prop d ''updatedDate'') = Some t"
  shows "project_pr_info dp d =
     Inr (JObj [(''id'', js_prop d ''id''),
                (''title'', js_prop d ''title''),
                (''description'', js_prop d ''description''),
                (''author'', opt_get (opt_get (js_prop d ''author'') ''user'') ''displayName''),
                (''reviewers'', reviewer_names (js_prop d ''reviewers'')),
                (''state'', js_prop d ''state''),
                (''created_on'', JStr ''2023-11-14T22:13:20.000Z''),
                (''updated_on'', JStr (iso_format t))])"
  unfolding project_pr_info_def by (rule pr_info_object_dates [OF assms])

lemma formatToolResponse_pr_info:
  "formatToolResponse (JObj [(''id'', a), (''title'', b), (''description'', c), (''author'', e),
      (''reviewers'', f), (''state'', g), (''created_on'', h), (''updated_on'', i)])
   = Inr (text_output (JSON_stringify (JObj [(''id'', a), (''title'', b), (''description'', c),
      (''author'', e), (''reviewers'', f), (''state'', g), (''created_on'', h), (''updated_on'', i)])))"
  by (simp add: formatToolResponse_def is_string_def object_with_def)

lemma get_pr_info_dates:
  assumes "\<not> nullish d"
    and "reviewers_ok (js_prop d ''reviewers'')"
    and "js_prop d ''createdDate'' = JNum 1700000000000"
    and "new_Date dp (js_prop d ''updatedDate'') = Some t"
    and "p = JObj [(''id'', js_prop d ''id''),
                (''title'', js_prop d ''title''),
                (''description'', js_prop d ''description''),
                (''author'', opt_get (opt_get (js_prop d ''author'') ''user'') ''displayName''),
                (''reviewers'', reviewer_names (js_prop d ''reviewers'')),
                (''state'', js_prop d ''state''),
                (''created_on'', JStr ''2023-11-14T22:13:20.000Z''),
                (''updated_on'', JStr (iso_format t))]"
  shows "(up (sent w) (get_request cfg (pr_path k s n) no_config) = Resolved d \<longrightarrow>
            fst (tool_logic cfg up dp (Bitbucketgetpr k s n) w) = Inr p
            \<and> fst (call_tool cfg up dp (Bitbucketgetpr k s n) w) = text_output (JSON_stringify p))
       \<and> (up (sent w) (api_request tok (pr_path k s n) None) = Resolved d \<longrightarrow>
            fst (bitbucketgetpr_handler tok up dp (k, s, n) w) = Inr (text_output (JSON_stringify p)))
       \<and> js_prop p ''created_on'' = JStr ''2023-11-14T22:13:20.000Z''
       \<and> js_prop p ''updated_on'' = JStr (iso_format t)"
proof (intro conjI impI)
  note proj = project_pr_info_dates [OF assms(1-4), folded assms(5)]
  note proj1 = pr_info_object_dates [OF assms(1-4), of "''data.data''", folded assms(5)]
  show "fst (tool_logic cfg up dp (Bitbucketgetpr k s n) w) = Inr p"
    if "up (sent w) (get_request cfg (pr_path k s n) no_config) = Resolved d"
    using that proj
    by (simp add: tool_logic_def bitbucketgetpr_logic_def bitbucketGet_Resolved getOrThrow_def ebind_def)
  then show "fst (call_tool cfg up dp (Bitbucketgetpr k s n) w) = text_output (JSON_stringify p)"
    if "up (sent w) (get_request cfg (pr_path k s n) no_config) = Resolved d"
    using that assms(5)
    by (cases "tool_logic cfg up dp (Bitbucketgetpr k s n) w")
       (simp add: call_tool_registered registerApiTool_Inr format_def is_string_def)
  show "fst (bitbucketgetpr_handler tok up dp (k, s, n) w) = Inr (text_output (JSON_stringify p))"
    if "up (sent w) (api_request tok (pr_path k s n) None) = Resolved d"
    using that proj1 formatToolResponse_pr_info assms(5)
    by (simp add: bitbucketgetpr_handler_def bitbucketApiRequest_Resolved ebind_def)
  show "js_prop p ''created_on'' = JStr ''2023-11-14T22:13:20.000Z''"
    by (simp add: assms(5) js_prop_def)
  show "js_prop p ''updated_on'' = JStr (iso_format t)"
    by (simp add: assms(5) js_prop_def)
qed

text \<open>
  Claim C8, as amended. For every upstream pull request that is an object whose
  \<open>createdDate\<close> is the number 1700000000000, whose \<open>updatedDate\<close> converts to a valid date
  and whose reviewers are missing or an array without nullish entries, the projection of
  get-pull-request-info is returned, its \<open>created_on\<close> is \<open>2023-11-14T22:13:20.000Z\<close>, the
  ISO-8601 form of that time, and its \<open>updated_on\<close> is the ISO-8601 form of the time of
  \<open>updatedDate\<close>. This is what the logic of \<open>bitbucketgetpr\<close> returns and what both variants
  answer with, serialised, when the host resolves the request with that object.
\<close>

theorem created_on_iso:
  assumes "\<not> nullish d"
    and "reviewers_ok (js_prop d ''reviewers'')"
    and "js_prop d ''createdDate'' = JNum 1700000000000"
    and "new_Date dp (js_prop d ''updatedDate'') = Some t"
  shows "\<exists>p. project_pr_info dp d = Inr p
       \<and> js_prop p ''created_on'' = JStr ''2023-11-14T22:13:20.000Z''
       \<and> js_prop p ''updated_on'' = JStr (iso_format t)
       \<and> (up (sent w) (get_request cfg (pr_path k s n) no_config) = Resolved d \<longrightarrow>
            fst (tool_logic cfg up dp (Bitbucketgetpr k s n) w) = Inr p
            \<and> fst (call_tool cfg up dp (Bitbucketgetpr k s n) w) = text_output (JSON_stringify p))
       \<and> (up (sent w) (api_request tok (pr_path k s n) None) = Resolved d \<longrightarrow>
            fst (bitbucketgetpr_handler tok up dp (k, s, n) w) = Inr (text_output (JSON_stringify p)))"
  using project_pr_info_dates [OF assms] get_pr_info_dates [OF assms refl, of up w cfg k s n tok]
  by blast

theorem created_on_iso_witness:
  "fst (tool_logic cfg0
          (scripted [Resolved (JObj [(''id'', JNum 7), (''createdDate'', JNum 1700000000000),
                                     (''updatedDate'', JNum 1700000360000)])])
          no_dates (Bitbucketgetpr ''PRJ'' ''repo'' 7) w0)
     = Inr (JObj [(''id'', JNum 7),
                  (''title'', JUndefined),
                  (''description'', JUndefined),
                  (''author'', JUndefined),
                  (''reviewers'', JUndefined),
                  (''state'', JUndefined),
                  (''created_on'', JStr ''2023-11-14T22:13:20.000Z''),
                  (''updated_on'', JStr ''2023-11-14T22:19:20.000Z'')])"
proof -
  let ?d = "JObj [(''id'', JNum 7), (''createdDate'', JNum 1700000000000),
                  (''updatedDate'', JNum 1700000360000)]"
  have u: "iso_format 1700000360000 = ''2023-11-14T22:19:20.000Z''" by code_simp
  have h: "\<not> nullish ?d" "reviewers_ok (js_prop ?d ''reviewers'')"
    "js_prop ?d ''createdDate'' = JNum 1700000000000"
    "new_Date no_dates (js_prop ?d ''updatedDate'') = Some 1700000360000"
    by (simp_all add: nullish_def reviewers_ok_def js_prop_def new_Date_def time_clip_def)
  have r: "scripted [Resolved ?d] (sent w0) (get_request cfg0 (pr_path ''PRJ'' ''repo'' 7) no_config)
             = Resolved ?d"
    by (simp add: scripted_def w0_def)
  from created_on_iso [OF h, of "scripted [Resolved ?d]" w0 cfg0 "''PRJ''" "''repo''" 7] r
  obtain p where p: "project_pr_info no_dates ?d = Inr p"
    "fst (tool_logic cfg0 (scripted [Resolved ?d]) no_dates (Bitbucketgetpr ''PRJ'' ''repo'' 7) w0) = Inr p"
    by blast
  from p(1) have "p = JObj [(''id'', JNum 7),
                  (''title'', JUndefined),
                  (''description'', JUndefined),
                  (''author'', JUndefined),
                  (''reviewers'', JUndefined),
                  (''state'', JUndefined),
                  (''created_on'', JStr ''2023-11-14T22:13:20.000Z''),
                  (''updated_on'', JStr ''2023-11-14T22:19:20.000Z'')]"
    unfolding project_pr_info_dates [OF h]
    by (simp add: u js_prop_def opt_get_def nullish_def reviewer_names_def)
  with p(2) show ?thesis by simp
qed

text \<open>
  Claim C8 as stated fails for a pull request with that \<open>createdDate\<close> and no \<open>updatedDate\<close>:
  the conversion of the missing date throws a \<open>RangeError\<close>, so no projection is returned;
  the wrapper answers with an \<open>Unhandled error\<close> text and, with the fixed base URL, the
  exception leaves the handler.
\<close>

theorem created_on_counterexample:
  "fst (tool_logic cfg0
          (scripted [Resolved (JObj [(''id'', JNum 7), (''createdDate'', JNum 1700000000000)])])
          no_dates (Bitbucketgetpr ''PRJ'' ''repo'' 7) w0)
     = Inl (Exn ''RangeError'' ''Invalid time value'')
   \<and> fst (call_tool cfg0
          (scripted [Resolved (JObj [(''id'', JNum 7), (''createdDate'', JNum 1700000000000)])])
          no_dates (Bitbucketgetpr ''PRJ'' ''repo'' 7) w0)
     = text_output (JStr ''Unhandled error: Invalid time value'')
   \<and> fst (bitbucketgetpr_handler None
          (scripted [Resolved (JObj [(''id'', JNum 7), (''createdDate'', JNum 1700000000000)])])
          no_dates (''PRJ'', ''repo'', 7) w0)
     = Inl (Exn ''RangeError'' ''Invalid time value'')"
  by code_simp

text \<open>
  Claim C4, at an inbox item with no \<open>fromRef\<close>: the projection does not give an undefined
  \<open>projectKey\<close> and \<open>repositorySlug\<close>, it throws a \<open>TypeError\<close>, and so it does for a
  repository with no \<open>project\<close>. The missing \<open>author\<close>, \<open>reviewers\<close> and \<open>destination\<close> of
  the same item are read as undefined once \<open>fromRef.repository.project\<close> is there. In a
  list, the one item without \<open>fromRef\<close> makes the handler of the fixed base URL throw and
  the registered tool answer with the \<open>Unhandled error\<close> text instead of the list.
\<close>

theorem fromRef_missing_throws:
  "project_list_item (JObj [(''id'', JNum 7), (''title'', JStr ''Fix''), (''state'', JStr ''OPEN'')])
     = Inl (Exn ''TypeError''
         (''Cannot read properties of undefined (reading '' @ [CHR 0x27] @ ''repository'' @ [CHR 0x27] @ '')''))
   \<and> project_list_item (JObj [(''id'', JNum 7), (''title'', JStr ''Fix''), (''state'', JStr ''OPEN''),
         (''fromRef'', JObj [(''repository'', JObj [(''slug'', JStr ''repo'')])])])
     = Inl (Exn ''TypeError''
         (''Cannot read properties of undefined (reading '' @ [CHR 0x27] @ ''key'' @ [CHR 0x27] @ '')''))
   \<and> project_list_item (JObj [(''id'', JNum 7), (''title'', JStr ''Fix''), (''state'', JStr ''OPEN''),
         (''fromRef'', JObj [(''repository'',
            JObj [(''slug'', JStr ''repo''), (''project'', JObj [(''key'', JStr ''PRJ'')])])])])
     = Inr (JObj [(''id'', JNum 7),
                  (''title'', JStr ''Fix''),
                  (''author'', JUndefined),
                  (''reviewers'', JUndefined),
                  (''state'', JStr ''OPEN''),
                  (''repository'', JUndefined),
                  (''projectKey'', JStr ''PRJ''),
                  (''repositorySlug'', JStr ''repo'')])
   \<and> fst (bitbucketlistprs_handler None
          (scripted [Resolved (JStr ''jdoe''), Resolved users_jdoe,
                     Resolved (inbox_page [pull_request 1 ''Add'',
                        JObj [(''id'', JNum 7), (''title'', JStr ''Fix''), (''state'', JStr ''OPEN'')]])])
          Author w0)
     = Inl (Exn ''TypeError''
         (''Cannot read properties of undefined (reading '' @ [CHR 0x27] @ ''repository'' @ [CHR 0x27] @ '')''))
   \<and> fst (call_tool cfg0
          (scripted [Resolved (JStr ''jdoe''), Resolved users_jdoe,
                     Resolved (inbox_page [pull_request 1 ''Add'',
                        JObj [(''id'', JNum 7), (''title'', JStr ''Fix''), (''state'', JStr ''OPEN'')]])])
          no_dates (Bitbucketlistprs Author) w0)
     = text_output (JStr (''Unhandled error: Cannot read properties of undefined (reading ''
         @ [CHR 0x27] @ ''repository'' @ [CHR 0x27] @ '')''))"
  by code_simp

section \<open>Deduplication\<close>

lemma strict_equals_self: "strict_equals a a True"
  by (cases a) (simp_all add: strict_equals_def)

lemma findIndex_miss:
  assumes "\<And>j p. (j, p) \<in> set ys \<Longrightarrow> \<not> nullish p \<and> \<not> strict_equals (item_id p) (item_id pr) (j = i)"
    and "\<not> nullish pr"
  shows "findIndex (ys @ zs) (i, pr) = findIndex zs (i, pr)"
  using assms
proof (induction ys)
  case Nil
  then show ?case by simp
next
  case (Cons y ys)
  obtain j p where y: "y = (j, p)" by (cases y)
  with Cons.prems have "\<not> nullish p" "\<not> strict_equals (item_id p) (item_id pr) (j = i)" by auto
  moreover from Cons have "findIndex (ys @ zs) (i, pr) = findIndex zs (i, pr)" by auto
  ultimately show ?case using y Cons.prems(2)
    by (simp add: js_get_def ebind_def item_id_def)
qed

lemma findIndex_hit:
  assumes "\<not> nullish p" and "\<not> nullish pr" and "strict_equals (item_id p) (item_id pr) (j = i)"
  shows "findIndex ((j, p) # zs) (i, pr) = Inr (int j)"
  using assms by (simp add: js_get_def ebind_def item_id_def)

lemma in_set_enumerate_less: "(j, p) \<in> set (enumerate n xs) \<Longrightarrow> n \<le> j \<and> j < n + length xs \<and> p \<in> set xs"
  by (auto simp: in_set_enumerate_eq)

lemma findIndex_own_place:
  assumes "list_all (\<lambda>p. \<not> nullish p) (pre @ pr # post)"
  shows "findIndex (enumerate 0 (pre @ pr # post)) (length pre, pr) = Inr (int (length pre))
         \<longleftrightarrow> \<not> list_ex (\<lambda>p. same_id p pr) pre"
    and "\<exists>k. findIndex (enumerate 0 (pre @ pr # post)) (length pre, pr) = Inr k"
proof -
  let ?i = "length pre"
  from assms have nn: "\<And>p. p \<in> set pre \<Longrightarrow> \<not> nullish p" "\<not> nullish pr"
    by (simp_all add: list_all_iff)
  have e: "enumerate 0 (pre @ pr # post)
             = enumerate 0 pre @ (?i, pr) # enumerate (Suc ?i) post"
    by (simp add: enumerate_append_eq)
  have *: "findIndex (enumerate 0 (pre @ pr # post)) (?i, pr) = Inr (int ?i)
             \<and> \<not> list_ex (\<lambda>p. same_id p pr) pre
           \<or> (\<exists>j < ?i. findIndex (enumerate 0 (pre @ pr # post)) (?i, pr) = Inr (int j))
             \<and> list_ex (\<lambda>p. same_id p pr) pre"
  proof (cases "list_ex (\<lambda>p. same_id p pr) pre")
    case False
    have "findIndex (enumerate 0 pre @ (?i, pr) # enumerate (Suc ?i) post) (?i, pr)
            = findIndex ((?i, pr) # enumerate (Suc ?i) post) (?i, pr)"
    proof (rule findIndex_miss)
      fix j p assume jp: "(j, p) \<in> set (enumerate 0 pre)"
      then have "j < ?i" "p \<in> set pre" by (auto dest: in_set_enumerate_less)
      with False nn show "\<not> nullish p \<and> \<not> strict_equals (item_id p) (item_id pr) (j = ?i)"
        by (auto simp: list_ex_iff same_id_def)
    qed (rule nn)
    also have "\<dots> = Inr (int ?i)"
      using nn(2) by (intro findIndex_hit) (simp_all add: strict_equals_self)
    finally show ?thesis using False e by simp
  next
    case True
    then obtain pre1 p pre2 where sp: "pre = pre1 @ p # pre2" "same_id p pr"
      "\<And>q. q \<in> set pre1 \<Longrightarrow> \<not> same_id q pr"
      by (auto simp: list_ex_iff dest!: split_list_first_prop)
    let ?j = "length pre1"
    have lt: "?j < ?i" using sp(1) by simp
    have e2: "enumerate 0 (pre @ pr # post)
               = enumerate 0 pre1 @ (?j, p) # enumerate (Suc ?j) (pre2 @ pr # post)"
      using sp(1) by (simp add: enumerate_append_eq)
    have "findIndex (enumerate 0 pre1 @ (?j, p) # enumerate (Suc ?j) (pre2 @ pr # post)) (?i, pr)
            = findIndex ((?j, p) # enumerate (Suc ?j) (pre2 @ pr # post)) (?i, pr)"
    proof (rule findIndex_miss)
      fix j q assume jq: "(j, q) \<in> set (enumerate 0 pre1)"
      then have "j < ?j" "q \<in> set pre1" by (auto dest: in_set_enumerate_less)
      with sp nn lt show "\<not> nullish q \<and> \<not> strict_equals (item_id q) (item_id pr) (j = ?i)"
        by (auto simp: same_id_def)
    qed (rule nn)
    also have "\<dots> = Inr (int ?j)"
      using nn sp lt by (intro findIndex_hit) (auto simp: same_id_def)
    finally show ?thesis using True e2 lt by auto
  qed
  from * show "findIndex (enumerate 0 (pre @ pr # post)) (length pre, pr) = Inr (int (length pre))
         \<longleftrightarrow> \<not> list_ex (\<lambda>p. same_id p pr) pre"
    by auto
  from * show "\<exists>k. findIndex (enumerate 0 (pre @ pr # post)) (length pre, pr) = Inr k"
    by auto
qed

lemma filter_first_first_seen:
  "list_all (\<lambda>p. \<not> nullish p) (pre @ xs) \<Longrightarrow>
   filter_first (enumerate 0 (pre @ xs)) (enumerate (length pre) xs) = Inr (first_seen pre xs)"
proof (induction xs arbitrary: pre)
  case Nil
  then show ?case by simp
next
  case (Cons pr rest)
  from Cons.prems have "list_all (\<lambda>p. \<not> nullish p) ((pre @ [pr]) @ rest)" by simp
  from Cons.IH [OF this]
  have ih: "filter_first (enumerate 0 (pre @ pr # rest)) (enumerate (Suc (length pre)) rest)
              = Inr (first_seen (pre @ [pr]) rest)"
    by simp
  from findIndex_own_place [OF Cons.prems] obtain k where
    k: "findIndex (enumerate 0 (pre @ pr # rest)) (length pre, pr) = Inr k"
    "k = int (length pre) \<longleftrightarrow> \<not> list_ex (\<lambda>p. same_id p pr) pre"
    by auto
  then show ?case using ih by (simp add: ebind_def)
qed

lemma uniquePrs_first_seen:
  "list_all (\<lambda>p. \<not> nullish p) prs \<Longrightarrow> uniquePrs prs = Inr (first_seen [] prs)"
  using filter_first_first_seen [of "[]" prs] by (simp add: uniquePrs_def)

lemma first_seen_subset: "set (first_seen seen xs) \<subseteq> set xs"
  by (induction xs arbitrary: seen) auto

lemma same_id_42: "item_id pr = JNum 42 \<Longrightarrow> same_id p pr \<longleftrightarrow> item_id p = JNum 42"
  by (cases "item_id p") (simp_all add: same_id_def strict_equals_def)

lemma first_seen_42:
  "filter (\<lambda>p. item_id p = JNum 42) (first_seen seen xs)
     = (if list_ex (\<lambda>p. item_id p = JNum 42) seen then []
        else (case find (\<lambda>p. item_id p = JNum 42) xs of None \<Rightarrow> [] | Some x \<Rightarrow> [x]))"
proof (induction xs arbitrary: seen)
  case Nil
  then show ?case by simp
next
  case (Cons pr rest)
  show ?case
  proof (cases "item_id pr = JNum 42")
    case True
    then have "list_ex (\<lambda>p. same_id p pr) seen \<longleftrightarrow> list_ex (\<lambda>p. item_id p = JNum 42) seen"
      by (simp add: list_ex_iff same_id_42)
    with True Cons.IH [of "seen @ [pr]"] show ?thesis by simp
  next
    case False
    with Cons.IH [of "seen @ [pr]"] show ?thesis by simp
  qed
qed

lemma project_list_item_projectable:
  "projectable pr \<Longrightarrow> project_list_item pr = Inr (list_projection pr)"
  by (simp add: projectable_def project_list_item_def list_projection_def js_get_def ebind_def
      opt_map_reviewers)

lemma list_projection_id: "js_prop (list_projection pr) ''id'' = item_id pr"
  by (simp add: list_projection_def js_prop_def item_id_def)

lemma projectable_not_nullish: "projectable pr \<Longrightarrow> \<not> nullish pr"
  by (simp add: projectable_def)

lemma dedup_and_project:
  assumes "list_all projectable prs"
  shows "ebind (uniquePrs prs) (\<lambda>us. ebind (emap project_list_item us) f)
           = f (map list_projection (first_seen [] prs))"
proof -
  from assms have "list_all (\<lambda>p. \<not> nullish p) prs"
    by (auto simp: list_all_iff dest: projectable_not_nullish)
  then have u: "uniquePrs prs = Inr (first_seen [] prs)" by (rule uniquePrs_first_seen)
  have "emap project_list_item (first_seen [] prs) = Inr (map list_projection (first_seen [] prs))"
  proof (rule emap_total)
    fix x assume "x \<in> set (first_seen [] prs)"
    with first_seen_subset [of "[]" prs] assms have "projectable x" by (auto simp: list_all_iff)
    then show "project_list_item x = Inr (list_projection x)" by (rule project_list_item_projectable)
  qed
  with u show ?thesis by (simp add: ebind_def)
qed

lemma tool_logic_inbox_host:
  "fst (tool_logic cfg (inbox_host A R) dp (Bitbucketlistprs AllRoles) w0)
     = ebind (uniquePrs (A @ R)) (\<lambda>us. ebind (emap project_list_item us) (\<lambda>ps. Inr (JArr ps)))"
  by (simp add: tool_logic_def bitbucketlistprs_logic_def bitbucketGet_def Let_def inbox_host_def
      scripted_def w0_def getOrThrow_def ebind_Inr_left users_jdoe_def js_get_def js_first_def
      opt_get_def js_prop_def truthy_def nullish_def effective_roles_AllRoles inbox_page_def spread_def)

lemma handler_inbox_host:
  "fst (bitbucketlistprs_handler tok (inbox_host A R) AllRoles w0)
     = ebind (uniquePrs (A @ R)) (\<lambda>us. ebind (emap project_list_item us) (\<lambda>ps. formatToolResponse (JArr ps)))"
  by (simp add: bitbucketlistprs_handler_def bitbucketApiRequest_def Let_def inbox_host_def
      scripted_def w0_def ebind_Inr_left users_jdoe_def js_get_def js_first_def first_user_def
      greater_than_zero_def to_number_def list_after_user_def inbox_query_def
      js_prop_def truthy_def nullish_def inbox_page_def spread_def)


lemma formatToolResponse_array:
  "formatToolResponse (JArr ps) = Inr (text_output (JSON_stringify (JArr ps)))"
  by (simp add: formatToolResponse_def is_string_def object_with_def)

lemma find_append_first:
  "find P (xs @ ys) = (case find P xs of None \<Rightarrow> find P ys | Some x \<Rightarrow> Some x)"
  by (induction xs) simp_all

text \<open>
  Claim C5. For every two lists \<open>A\<close> and \<open>R\<close> of items that the projection reads without an
  exception, found by the inbox queries for \<open>AUTHOR\<close> and for \<open>REVIEWER\<close>, listing with the
  role \<open>all\<close> returns, in both variants, the projections of the items of \<open>A\<close> followed by
  \<open>R\<close> from which every item is removed that has the identifier of an item before it, in
  the order of the items. When an item with identifier 42 is in both lists, exactly one
  entry of the result has the identifier 42, and it is the projection of the first such
  item of \<open>A\<close>, the copy the \<open>AUTHOR\<close> query found.
\<close>

theorem list_deduplicates_by_id:
  assumes "list_all projectable (A @ R)"
  shows "uniquePrs (A @ R) = Inr (first_seen [] (A @ R))
       \<and> fst (tool_logic cfg (inbox_host A R) dp (Bitbucketlistprs AllRoles) w0)
           = Inr (JArr (map list_projection (first_seen [] (A @ R))))
       \<and> fst (call_tool cfg (inbox_host A R) dp (Bitbucketlistprs AllRoles) w0)
           = text_output (JSON_stringify (JArr (map list_projection (first_seen [] (A @ R)))))
       \<and> fst (bitbucketlistprs_handler tok (inbox_host A R) AllRoles w0)
           = Inr (text_output (JSON_stringify (JArr (map list_projection (first_seen [] (A @ R))))))
       \<and> (list_ex (\<lambda>p. item_id p = JNum 42) A \<and> list_ex (\<lambda>p. item_id p = JNum 42) R \<longrightarrow>
            (\<exists>a. find (\<lambda>p. item_id p = JNum 42) A = Some a
               \<and> filter (\<lambda>p. js_prop p ''id'' = JNum 42) (map list_projection (first_seen [] (A @ R)))
                   = [list_projection a]))"
proof (intro conjI impI)
  from assms have "list_all (\<lambda>p. \<not> nullish p) (A @ R)"
    by (auto simp: list_all_iff dest: projectable_not_nullish)
  then show "uniquePrs (A @ R) = Inr (first_seen [] (A @ R))"
    by (rule uniquePrs_first_seen)
  show l: "fst (tool_logic cfg (inbox_host A R) dp (Bitbucketlistprs AllRoles) w0)
           = Inr (JArr (map list_projection (first_seen [] (A @ R))))"
    by (simp add: tool_logic_inbox_host dedup_and_project [OF assms])
  show "fst (call_tool cfg (inbox_host A R) dp (Bitbucketlistprs AllRoles) w0)
           = text_output (JSON_stringify (JArr (map list_projection (first_seen [] (A @ R)))))"
    using l
    by (cases "tool_logic cfg (inbox_host A R) dp (Bitbucketlistprs AllRoles) w0")
       (simp add: call_tool_registered registerApiTool_Inr format_def is_string_def)
  show "fst (bitbucketlistprs_handler tok (inbox_host A R) AllRoles w0)
           = Inr (text_output (JSON_stringify (JArr (map list_projection (first_seen [] (A @ R))))))"
    by (simp add: handler_inbox_host dedup_and_project [OF assms] formatToolResponse_array)
next
  assume "list_ex (\<lambda>p. item_id p = JNum 42) A \<and> list_ex (\<lambda>p. item_id p = JNum 42) R"
  then obtain a where a: "find (\<lambda>p. item_id p = JNum 42) A = Some a"
    by (cases "find (\<lambda>p. item_id p = JNum 42) A") (auto simp: find_None_iff list_ex_iff)
  have "filter (\<lambda>p. js_prop p ''id'' = JNum 42) (map list_projection (first_seen [] (A @ R)))
          = map list_projection (filter (\<lambda>p. item_id p = JNum 42) (first_seen [] (A @ R)))"
    by (simp add: filter_map comp_def list_projection_id)
  also have "\<dots> = [list_projection a]"
    using a by (simp add: first_seen_42 find_append_first)
  finally show "\<exists>a. find (\<lambda>p. item_id p = JNum 42) A = Some a
               \<and> filter (\<lambda>p. js_prop p ''id'' = JNum 42) (map list_projection (first_seen [] (A @ R)))
                   = [list_projection a]"
    using a by simp
qed

theorem list_deduplicates_by_id_witness:
  "fst (tool_logic cfg0
          (inbox_host [pull_request 42 ''as author'']
                      [pull_request 43 ''other'', pull_request 42 ''as reviewer''])
          no_dates (Bitbucketlistprs AllRoles) w0)
     = Inr (JArr
         [JObj [(''id'', JNum 42),
                (''title'', JStr ''as author''),
                (''author'', JStr ''J. Doe''),
                (''reviewers'', JArr [JStr ''R. Roe'']),
                (''state'', JStr ''OPEN''),
                (''repository'', JUndefined),
                (''projectKey'', JStr ''PRJ''),
                (''repositorySlug'', JStr ''repo'')],
          JObj [(''id'', JNum 43),
                (''title'', JStr ''other''),
                (''author'', JStr ''J. Doe''),
                (''reviewers'', JArr [JStr ''R. Roe'']),
                (''state'', JStr ''OPEN''),
                (''repository'', JUndefined),
                (''projectKey'', JStr ''PRJ''),
                (''repositorySlug'', JStr ''repo'')]])"
proof -
  let ?A = "[pull_request 42 ''as author'']"
  let ?R = "[pull_request 43 ''other'', pull_request 42 ''as reviewer'']"
  have h: "list_all projectable (?A @ ?R)" by code_simp
  have e: "map list_projection (first_seen [] (?A @ ?R))
     = [JObj [(''id'', JNum 42),
                (''title'', JStr ''as author''),
                (''author'', JStr ''J. Doe''),
                (''reviewers'', JArr [JStr ''R. Roe'']),
                (''state'', JStr ''OPEN''),
                (''repository'', JUndefined),
                (''projectKey'', JStr ''PRJ''),
                (''repositorySlug'', JStr ''repo'')],
          JObj [(''id'', JNum 43),
                (''title'', JStr ''other''),
                (''author'', JStr ''J. Doe''),
                (''reviewers'', JArr [JStr ''R. Roe'']),
                (''state'', JStr ''OPEN''),
                (''repository'', JUndefined),
                (''projectKey'', JStr ''PRJ''),
                (''repositorySlug'', JStr ''repo'')]]"
    by code_simp
  from list_deduplicates_by_id [OF h, of cfg0 no_dates, THEN conjunct2, THEN conjunct1]
  show ?thesis unfolding e .
qed

end
